theory Spec2Isabelle
  imports Complex_Main
begin

section \<open>String helpers of the JavaScript runtime\<close>

text \<open>
  JavaScript strings are modelled as \<^typ>\<open>string\<close> (lists of 8-bit characters), which covers
  the ASCII paths, identifiers and dates the program handles. The helpers below follow
  \<^verbatim>\<open>String.prototype.split\<close>, \<^verbatim>\<open>Array.prototype.join\<close>, \<^verbatim>\<open>startsWith\<close>,
  \<^verbatim>\<open>endsWith\<close> and \<^verbatim>\<open>includes\<close>.
\<close>

fun splitStr :: "char \<Rightarrow> string \<Rightarrow> string list" where
  "splitStr c [] = [[]]"
| "splitStr c (x # xs) =
     (if x = c then [] # splitStr c xs
      else (case splitStr c xs of [] \<Rightarrow> [[x]] | y # ys \<Rightarrow> (x # y) # ys))"

fun joinStr :: "string \<Rightarrow> string list \<Rightarrow> string" where
  "joinStr sep [] = []"
| "joinStr sep [x] = x"
| "joinStr sep (x # y # ys) = x @ sep @ joinStr sep (y # ys)"

definition startsWith :: "string \<Rightarrow> string \<Rightarrow> bool" where
  "startsWith s p = (take (length p) s = p)"

definition endsWith :: "string \<Rightarrow> string \<Rightarrow> bool" where
  "endsWith s p = (length p \<le> length s \<and> drop (length s - length p) s = p)"

fun includesStr :: "string \<Rightarrow> string \<Rightarrow> bool" where
  "includesStr [] sub = (sub = [])"
| "includesStr (x # xs) sub = (startsWith (x # xs) sub \<or> includesStr xs sub)"

definition backslash :: char where
  "backslash = CHR 0x5C"

text \<open>\<^verbatim>\<open>value.replace(/\\/g, '/')\<close>: every backslash becomes a slash.\<close>

definition replaceBackslashes :: "string \<Rightarrow> string" where
  "replaceBackslashes s = map (\<lambda>c. if c = backslash then CHR ''/'' else c) s"

section \<open>lib/path\<close>

text \<open>
  The loop of \<^verbatim>\<open>normalizePath\<close> over the non-empty segments, with \<^verbatim>\<open>output\<close> as the
  accumulator: a \<^verbatim>\<open>.\<close> is skipped, a \<^verbatim>\<open>..\<close> pops the last segment when there is
  one and is dropped otherwise, any other segment is pushed.
\<close>

fun normalizeSegments :: "string list \<Rightarrow> string list \<Rightarrow> string list" where
  "normalizeSegments [] output = output"
| "normalizeSegments (segment # segments) output =
     (if segment = ''.'' then normalizeSegments segments output
      else if segment = ''..'' then
        (if length output > 0 then normalizeSegments segments (butlast output)
         else normalizeSegments segments output)
      else normalizeSegments segments (output @ [segment]))"

definition normalizePath :: "string \<Rightarrow> string" where
  "normalizePath input =
     (let absolute = startsWith input ''/'';
          segments = filter (\<lambda>segment. length segment > 0) (splitStr CHR ''/'' input);
          output = normalizeSegments segments [];
          built = joinStr ''/'' output
      in if absolute then ''/'' @ built else built)"

definition isUnsafeRelativePath :: "string \<Rightarrow> bool" where
  "isUnsafeRelativePath input =
     (let normalized = normalizePath (replaceBackslashes input)
      in startsWith normalized ''/'' \<or> includesStr normalized ''../'' \<or> normalized = ''..'')"

section \<open>lib/settings: budget variance\<close>




section \<open>services/paths.service: snapshot metadata\<close>

text \<open>
  \<^verbatim>\<open>SnapshotMeta\<close> as in the source; the field \<^verbatim>\<open>id\<close> is called \<open>snapId\<close> here. The state
  of the service is the list that \<^verbatim>\<open>readSnapshotMeta\<close> returns, which is the \<^verbatim>\<open>snapshots\<close>
  array of the metadata file (the empty list when the file is missing or unreadable), and
  \<^verbatim>\<open>writeSnapshotMeta\<close> replaces it. The identifier from \<^verbatim>\<open>nanoid\<close> and the clock reading
  are arguments. \<^verbatim>\<open>ensureDatasetLayout\<close> creates directories and does not touch the metadata;
  it is left out.
\<close>

record SnapshotMeta =
  snapId :: string
  label :: string
  createdAt :: string
  sourceZip :: "string option"
  isActive :: bool

datatype paths_error = UnknownSnapshot string

definition ensureActiveSnapshot ::
  "string \<Rightarrow> string \<Rightarrow> SnapshotMeta list \<Rightarrow> SnapshotMeta \<times> SnapshotMeta list" where
  "ensureActiveSnapshot newId now meta =
     (case find isActive meta of
        Some active \<Rightarrow> (active, meta)
      | None \<Rightarrow>
          (let created = \<lparr> snapId = newId, label = ''Default Dataset'', createdAt = now,
                             sourceZip = None, isActive = True \<rparr>
           in (created, [created])))"

text \<open>
  \<^verbatim>\<open>activateSnapshot\<close> throws \<^verbatim>\<open>Snapshot ... does not exist.\<close> before it writes anything
  when no snapshot has the identifier; the result pairs the outcome with the metadata left
  behind.
\<close>

definition activateSnapshot ::
  "string \<Rightarrow> SnapshotMeta list \<Rightarrow> (paths_error + unit) \<times> SnapshotMeta list" where
  "activateSnapshot snapshotId meta =
     (let found = list_ex (\<lambda>snapshot. snapId snapshot = snapshotId) meta;
          snapshots = map (\<lambda>snapshot.
                             if snapId snapshot = snapshotId then snapshot\<lparr>isActive := True\<rparr>
                             else snapshot\<lparr>isActive := False\<rparr>) meta
      in if \<not> found then (Inl (UnknownSnapshot snapshotId), meta)
         else (Inr (), snapshots))"

definition addSnapshot ::
  "SnapshotMeta \<Rightarrow> bool \<Rightarrow> SnapshotMeta list \<Rightarrow> SnapshotMeta \<times> SnapshotMeta list" where
  "addSnapshot input setActive meta =
     (let snapshots = map (\<lambda>item. item\<lparr>isActive := (if setActive then False else isActive item)\<rparr>) meta;
          snapshot = input\<lparr>isActive := setActive\<rparr>
      in (snapshot, snapshots @ [snapshot]))"

text \<open>Sequences of the three operations; a failed activation leaves the metadata as it was.\<close>

datatype snapshot_op =
    EnsureActiveSnapshot string string
  | ActivateSnapshot string
  | AddSnapshot SnapshotMeta bool

fun applySnapshotOp :: "snapshot_op \<Rightarrow> SnapshotMeta list \<Rightarrow> SnapshotMeta list" where
  "applySnapshotOp (EnsureActiveSnapshot newId now) meta = snd (ensureActiveSnapshot newId now meta)"
| "applySnapshotOp (ActivateSnapshot snapshotId) meta = snd (activateSnapshot snapshotId meta)"
| "applySnapshotOp (AddSnapshot input setActive) meta = snd (addSnapshot input setActive meta)"

fun runSnapshotOps :: "snapshot_op list \<Rightarrow> SnapshotMeta list \<Rightarrow> SnapshotMeta list" where
  "runSnapshotOps [] meta = meta"
| "runSnapshotOps (op # ops) meta = runSnapshotOps ops (applySnapshotOp op meta)"

text \<open>The identifiers of the snapshots that a sequence of operations adds with \<^verbatim>\<open>addSnapshot\<close>.\<close>

fun addedIds :: "snapshot_op list \<Rightarrow> string list" where
  "addedIds [] = []"
| "addedIds (AddSnapshot input setActive # ops) = snapId input # addedIds ops"
| "addedIds (EnsureActiveSnapshot newId now # ops) = addedIds ops"
| "addedIds (ActivateSnapshot snapshotId # ops) = addedIds ops"

definition activeCount :: "SnapshotMeta list \<Rightarrow> nat" where
  "activeCount meta = length (filter isActive meta)"

text \<open>Two snapshot descriptors used in the examples below.\<close>

definition snapDefault :: SnapshotMeta where
  "snapDefault = \<lparr> snapId = ''d0'', label = ''Default Dataset'', createdAt = ''2024-01-01T00:00:00.000Z'',
                    sourceZip = None, isActive = True \<rparr>"

definition snapImported :: SnapshotMeta where
  "snapImported = \<lparr> snapId = ''imp1'', label = ''Imported'', createdAt = ''2024-05-01T10:00:00.000Z'',
                     sourceZip = Some ''backup.zip'', isActive = False \<rparr>"

section \<open>Shared types: filters and settings\<close>

text \<open>
  \<^verbatim>\<open>PurchaseFilterInput\<close> after \<^verbatim>\<open>purchaseFilterInputSchema.parse\<close>: every field but
  \<^verbatim>\<open>limit\<close> and \<^verbatim>\<open>offset\<close> may be absent.
\<close>

record PurchaseFilterInput =
  fromDate :: "string option"
  toDate :: "string option"
  categoryIds :: "string list option"
  vendor :: "string option"
  minAmountCents :: "int option"
  maxAmountCents :: "int option"
  tagIds :: "string list option"
  query :: "string option"
  limit :: int
  offset :: int

text \<open>
  \<^verbatim>\<open>AppSettings\<close>, with the fields that \<^verbatim>\<open>defaultSettings\<close> lists.
\<close>

record AppSettings =
  theme :: string
  baseCurrency :: string
  overallMonthlyBudgetCents :: int
  performanceMode :: string
  previewImages :: bool
  lastFilters :: PurchaseFilterInput

definition defaultSettings :: AppSettings where
  "defaultSettings =
     \<lparr> theme = ''dark'', baseCurrency = ''USD'', overallMonthlyBudgetCents = 0,
       performanceMode = ''off'', previewImages = True,
       lastFilters = \<lparr> fromDate = None, toDate = None, categoryIds = None, vendor = None,
                       minAmountCents = None, maxAmountCents = None, tagIds = None, query = None,
                       limit = 100, offset = 0 \<rparr> \<rparr>"

text \<open>
  A JavaScript object read as settings before the schema has checked it: every property may
  be \<^verbatim>\<open>undefined\<close> (\<open>None\<close>).
\<close>

record PurchaseFilterRaw =
  rawFromDate :: "string option"
  rawToDate :: "string option"
  rawCategoryIds :: "string list option"
  rawVendor :: "string option"
  rawMinAmountCents :: "int option"
  rawMaxAmountCents :: "int option"
  rawTagIds :: "string list option"
  rawQuery :: "string option"
  rawLimit :: "int option"
  rawOffset :: "int option"

record AppSettingsRaw =
  rawTheme :: "string option"
  rawBaseCurrency :: "string option"
  rawOverallMonthlyBudgetCents :: "int option"
  rawPerformanceMode :: "string option"
  rawPreviewImages :: "bool option"
  rawLastFilters :: "PurchaseFilterRaw option"

text \<open>
  The text column \<^verbatim>\<open>value_json\<close> of \<^verbatim>\<open>app_settings\<close> is modelled by what \<^verbatim>\<open>JSON.parse\<close>
  makes of it: either it throws, or it yields an object; \<^verbatim>\<open>JSON.stringify\<close> of an object
  is the text that parses back to it.
\<close>

datatype settings_json = NotJson | JsonObject AppSettingsRaw

text \<open>
  A property of an update input (\<^verbatim>\<open>Partial<AppSettings>\<close>): the key is absent, present
  with the value \<^verbatim>\<open>undefined\<close>, or present with a value.
\<close>

datatype 'a property = Absent | Undefined | Present 'a

record PurchaseFilterProps =
  inFromDate :: "string property"
  inToDate :: "string property"
  inCategoryIds :: "string list property"
  inVendor :: "string property"
  inMinAmountCents :: "int property"
  inMaxAmountCents :: "int property"
  inTagIds :: "string list property"
  inQuery :: "string property"
  inLimit :: "int property"
  inOffset :: "int property"

record AppSettingsInput =
  inTheme :: "string property"
  inBaseCurrency :: "string property"
  inOverallMonthlyBudgetCents :: "int property"
  inPerformanceMode :: "string property"
  inPreviewImages :: "bool property"
  inLastFilters :: "PurchaseFilterProps property"

section \<open>The embedded database\<close>

text \<open>
  The tables of \<^verbatim>\<open>migrationSql\<close> that the modelled operations read, as lists of rows in table
  order. Column names carry the table alias as a prefix (\<open>p_id\<close> is \<^verbatim>\<open>p.id\<close>); nullable columns
  are options. \<^verbatim>\<open>app_settings\<close> holds at most the one row with key \<^verbatim>\<open>app\<close>, whose
  \<^verbatim>\<open>value_json\<close> is \<open>app_settings_row\<close>.
\<close>

record PurchaseCoreRow =
  p_id :: string
  p_name :: string
  p_amount_cents :: int
  p_currency :: string
  p_purchase_date :: string
  p_vendor :: "string option"
  p_notes :: "string option"
  p_category_id :: "string option"
  p_created_at :: string
  p_updated_at :: string

record PurchaseTagRow =
  pt_purchase_id :: string
  pt_tag_id :: string

record TagRow =
  t_id :: string
  t_name :: string
  t_color_hex :: string
  t_created_at :: string

record PurchaseImageRow =
  i_id :: string
  i_purchase_id :: string
  i_relative_path :: string
  i_original_name :: string
  i_mime_type :: string
  i_size_bytes :: int
  i_width :: "int option"
  i_height :: "int option"
  i_created_at :: string

record MonthlyBudgetRow =
  b_id :: string
  b_category_id :: string
  b_year :: int
  b_month :: int
  b_budget_cents :: int

record database =
  purchases :: "PurchaseCoreRow list"
  purchase_tags :: "PurchaseTagRow list"
  tags :: "TagRow list"
  purchase_images :: "PurchaseImageRow list"
  monthly_budgets :: "MonthlyBudgetRow list"
  app_settings_row :: "settings_json option"

datatype sql_value = SqlText string | SqlInt int

subsection \<open>Text comparison, \<^verbatim>\<open>lower\<close> and \<^verbatim>\<open>LIKE\<close>\<close>

text \<open>
  SQLite compares text with the \<^verbatim>\<open>BINARY\<close> collation: byte by byte, a proper prefix first.
\<close>

fun textLess :: "string \<Rightarrow> string \<Rightarrow> bool" where
  "textLess [] [] = False"
| "textLess [] (y # ys) = True"
| "textLess (x # xs) [] = False"
| "textLess (x # xs) (y # ys) =
     ((of_char x :: nat) < of_char y \<or> (x = y \<and> textLess xs ys))"

definition textLe :: "string \<Rightarrow> string \<Rightarrow> bool" where
  "textLe a b = (a = b \<or> textLess a b)"

text \<open>SQLite's \<^verbatim>\<open>lower\<close> folds the ASCII letters only.\<close>

definition lowerChar :: "char \<Rightarrow> char" where
  "lowerChar c =
     (if (65::nat) \<le> of_char c \<and> of_char c \<le> (90::nat) then char_of (of_char c + (32::nat)) else c)"

definition lower :: "string \<Rightarrow> string" where
  "lower s = map lowerChar s"

text \<open>
  \<^verbatim>\<open>text LIKE pattern\<close>: \<^verbatim>\<open>%\<close> matches any run of characters, \<^verbatim>\<open>_\<close> any one character,
  and letters match without regard to ASCII case.
\<close>

fun likeMatch :: "string \<Rightarrow> string \<Rightarrow> bool" where
  "likeMatch [] t = (t = [])"
| "likeMatch (p # ps) [] = (p = CHR ''%'' \<and> likeMatch ps [])"
| "likeMatch (p # ps) (c # cs) =
     (if p = CHR ''%'' then likeMatch ps (c # cs) \<or> likeMatch (p # ps) cs
      else (p = CHR ''_'' \<or> lowerChar p = lowerChar c) \<and> likeMatch ps cs)"

definition coalesce :: "string option \<Rightarrow> string \<Rightarrow> string" where
  "coalesce v d = (case v of None \<Rightarrow> d | Some s \<Rightarrow> s)"

subsection \<open>\<^verbatim>\<open>ORDER BY\<close>, \<^verbatim>\<open>LIMIT\<close> and \<^verbatim>\<open>OFFSET\<close>\<close>




section \<open>lib/filter-query\<close>

text \<open>
  The SQL fragments that \<^verbatim>\<open>buildPurchaseFilterSql\<close> pushes onto \<^verbatim>\<open>conditions\<close>, one
  constructor per fragment. \<open>CategoryIn n\<close> has \<open>n\<close> placeholders. \<open>TagsAll n k\<close> is
  \<^verbatim>\<open>p.id IN (SELECT purchase_id FROM purchase_tags WHERE tag_id IN (?,...) GROUP BY purchase_id
  HAVING count(DISTINCT tag_id) = k)\<close> with \<open>n\<close> placeholders and the number \<open>k\<close> written into
  the text. \<^verbatim>\<open>whereSql\<close> is the list of fragments, joined by \<^verbatim>\<open>AND\<close>; the empty list is
  the empty string (no \<^verbatim>\<open>WHERE\<close> clause).
\<close>

datatype sql_condition =
    PurchaseDateGe
  | PurchaseDateLe
  | CategoryIn nat
  | VendorLike
  | AmountGe
  | AmountLe
  | TagsAll nat nat
  | TextLike

text \<open>The field \<^verbatim>\<open>values\<close> of \<^verbatim>\<open>BuiltFilterQuery\<close> is called \<open>bindValues\<close> here.\<close>

record BuiltFilterQuery =
  whereSql :: "sql_condition list"
  bindValues :: "sql_value list"

text \<open>JavaScript truthiness of an optional string: present and not empty.\<close>

definition truthy :: "string option \<Rightarrow> bool" where
  "truthy v = (case v of None \<Rightarrow> False | Some s \<Rightarrow> s \<noteq> [])"

definition isWhiteSpace :: "char \<Rightarrow> bool" where
  "isWhiteSpace c = (of_char c \<in> {9, 10, 11, 12, 13, 32 :: nat})"

definition trim :: "string \<Rightarrow> string" where
  "trim s = rev (dropWhile isWhiteSpace (rev (dropWhile isWhiteSpace s)))"

text \<open>
  Each step of \<^verbatim>\<open>buildPurchaseFilterSql\<close> takes the pair (\<^verbatim>\<open>conditions\<close>, \<^verbatim>\<open>values\<close>) and
  pushes onto both when its test holds.
\<close>

type_synonym filter_acc = "sql_condition list \<times> sql_value list"

definition pushFromDate :: "PurchaseFilterInput \<Rightarrow> filter_acc \<Rightarrow> filter_acc" where
  "pushFromDate filters acc =
     (if truthy (fromDate filters)
      then (fst acc @ [PurchaseDateGe], snd acc @ [SqlText (the (fromDate filters))])
      else acc)"

definition pushToDate :: "PurchaseFilterInput \<Rightarrow> filter_acc \<Rightarrow> filter_acc" where
  "pushToDate filters acc =
     (if truthy (toDate filters)
      then (fst acc @ [PurchaseDateLe], snd acc @ [SqlText (the (toDate filters))])
      else acc)"

definition pushCategoryIds :: "PurchaseFilterInput \<Rightarrow> filter_acc \<Rightarrow> filter_acc" where
  "pushCategoryIds filters acc =
     (case categoryIds filters of
        None \<Rightarrow> acc
      | Some ids \<Rightarrow>
          if length ids > 0
          then (fst acc @ [CategoryIn (length (map (\<lambda>_. ''?'') ids))], snd acc @ map SqlText ids)
          else acc)"

definition pushVendor :: "PurchaseFilterInput \<Rightarrow> filter_acc \<Rightarrow> filter_acc" where
  "pushVendor filters acc =
     (if truthy (vendor filters)
      then (fst acc @ [VendorLike], snd acc @ [SqlText (''%'' @ the (vendor filters) @ ''%'')])
      else acc)"

definition pushMinAmount :: "PurchaseFilterInput \<Rightarrow> filter_acc \<Rightarrow> filter_acc" where
  "pushMinAmount filters acc =
     (case minAmountCents filters of
        None \<Rightarrow> acc
      | Some n \<Rightarrow> (fst acc @ [AmountGe], snd acc @ [SqlInt n]))"

definition pushMaxAmount :: "PurchaseFilterInput \<Rightarrow> filter_acc \<Rightarrow> filter_acc" where
  "pushMaxAmount filters acc =
     (case maxAmountCents filters of
        None \<Rightarrow> acc
      | Some n \<Rightarrow> (fst acc @ [AmountLe], snd acc @ [SqlInt n]))"

definition pushTagIds :: "PurchaseFilterInput \<Rightarrow> filter_acc \<Rightarrow> filter_acc" where
  "pushTagIds filters acc =
     (case tagIds filters of
        None \<Rightarrow> acc
      | Some ids \<Rightarrow>
          if length ids > 0
          then (fst acc @ [TagsAll (length (map (\<lambda>_. ''?'') ids)) (length ids)],
                snd acc @ map SqlText ids)
          else acc)"

definition pushQuery :: "PurchaseFilterInput \<Rightarrow> filter_acc \<Rightarrow> filter_acc" where
  "pushQuery filters acc =
     (if truthy (query filters)
      then (let queryLike = ''%'' @ trim (the (query filters)) @ ''%''
            in (fst acc @ [TextLike],
                snd acc @ [SqlText queryLike, SqlText queryLike, SqlText queryLike]))
      else acc)"

definition buildPurchaseFilterSql :: "PurchaseFilterInput \<Rightarrow> BuiltFilterQuery" where
  "buildPurchaseFilterSql filters =
     (let acc = pushQuery filters (pushTagIds filters (pushMaxAmount filters (pushMinAmount filters
                 (pushVendor filters (pushCategoryIds filters (pushToDate filters
                 (pushFromDate filters ([], []))))))))
      in \<lparr> whereSql = fst acc, bindValues = snd acc \<rparr>)"

subsection \<open>What the fragments mean\<close>

text \<open>The number of \<^verbatim>\<open>?\<close> placeholders of a fragment.\<close>

fun placeholders :: "sql_condition \<Rightarrow> nat" where
  "placeholders PurchaseDateGe = 1"
| "placeholders PurchaseDateLe = 1"
| "placeholders (CategoryIn n) = n"
| "placeholders VendorLike = 1"
| "placeholders AmountGe = 1"
| "placeholders AmountLe = 1"
| "placeholders (TagsAll n k) = n"
| "placeholders TextLike = 3"

text \<open>
  The rows of \<^verbatim>\<open>purchase_tags\<close> that the subquery of \<open>TagsAll\<close> keeps for one purchase, and
  the value of \<^verbatim>\<open>count(DISTINCT tag_id)\<close> for its group.
\<close>

definition tagGroup :: "database \<Rightarrow> sql_value list \<Rightarrow> string \<Rightarrow> PurchaseTagRow list" where
  "tagGroup db bound purchaseId =
     filter (\<lambda>r. pt_purchase_id r = purchaseId \<and> SqlText (pt_tag_id r) \<in> set bound)
       (purchase_tags db)"

definition countDistinctTags :: "PurchaseTagRow list \<Rightarrow> nat" where
  "countDistinctTags rows = length (remdups (map pt_tag_id rows))"

text \<open>
  A fragment evaluated on a row of \<^verbatim>\<open>purchases p\<close> with the values bound to its
  placeholders. \<^verbatim>\<open>buildPurchaseFilterSql\<close> binds text to text columns and integers to
  \<^verbatim>\<open>amount_cents\<close>; for any other binding the fragment counts as false.
\<close>

fun evalCondition :: "database \<Rightarrow> sql_condition \<Rightarrow> sql_value list \<Rightarrow> PurchaseCoreRow \<Rightarrow> bool" where
  "evalCondition db PurchaseDateGe [SqlText v] p = textLe v (p_purchase_date p)"
| "evalCondition db PurchaseDateLe [SqlText v] p = textLe (p_purchase_date p) v"
| "evalCondition db (CategoryIn n) bound p =
     (case p_category_id p of None \<Rightarrow> False | Some c \<Rightarrow> SqlText c \<in> set bound)"
| "evalCondition db VendorLike [SqlText v] p = likeMatch (lower v) (lower (coalesce (p_vendor p) []))"
| "evalCondition db AmountGe [SqlInt v] p = (v \<le> p_amount_cents p)"
| "evalCondition db AmountLe [SqlInt v] p = (p_amount_cents p \<le> v)"
| "evalCondition db (TagsAll n k) bound p =
     (tagGroup db bound (p_id p) \<noteq> [] \<and> countDistinctTags (tagGroup db bound (p_id p)) = k)"
| "evalCondition db TextLike [SqlText a, SqlText b, SqlText c] p =
     (likeMatch (lower a) (lower (p_name p)) \<or>
      likeMatch (lower b) (lower (coalesce (p_vendor p) [])) \<or>
      likeMatch (lower c) (lower (coalesce (p_notes p) [])))"
| "evalCondition db _ _ p = False"

text \<open>
  The \<^verbatim>\<open>WHERE\<close> clause: the fragments are joined by \<^verbatim>\<open>AND\<close> and take their values from the
  bound list in order of appearance.
\<close>

fun evalWhere :: "database \<Rightarrow> sql_condition list \<Rightarrow> sql_value list \<Rightarrow> PurchaseCoreRow \<Rightarrow> bool" where
  "evalWhere db [] bound p = True"
| "evalWhere db (c # cs) bound p =
     (evalCondition db c (take (placeholders c) bound) p \<and>
      evalWhere db cs (drop (placeholders c) bound) p)"



section \<open>services/database.service: listing purchases\<close>

datatype db_error = StoreNotInitialized | ValidationError | QueryError








text \<open>The predicate that \<^verbatim>\<open>buildPurchaseFilterSql\<close> compiles a filter to.\<close>

definition matchesFilter :: "database \<Rightarrow> PurchaseFilterInput \<Rightarrow> PurchaseCoreRow \<Rightarrow> bool" where
  "matchesFilter db filters p =
     evalWhere db (whereSql (buildPurchaseFilterSql filters))
       (bindValues (buildPurchaseFilterSql filters)) p"

text \<open>The tag ids that a purchase carries in \<^verbatim>\<open>purchase_tags\<close>.\<close>

definition purchaseTagIds :: "database \<Rightarrow> string \<Rightarrow> string set" where
  "purchaseTagIds db purchaseId =
     set (map pt_tag_id (filter (\<lambda>r. pt_purchase_id r = purchaseId) (purchase_tags db)))"

text \<open>A filter that constrains nothing but the tags.\<close>

definition tagFilter :: "string list \<Rightarrow> PurchaseFilterInput" where
  "tagFilter ids =
     \<lparr> fromDate = None, toDate = None, categoryIds = None, vendor = None,
       minAmountCents = None, maxAmountCents = None, tagIds = Some ids, query = None,
       limit = 100, offset = 0 \<rparr>"

text \<open>The example of the specification: three purchases tagged {A}, {B} and {A, B}.\<close>

definition examplePurchase :: "string \<Rightarrow> string \<Rightarrow> PurchaseCoreRow" where
  "examplePurchase pid day =
     \<lparr> p_id = pid, p_name = ''Groceries'', p_amount_cents = 1250, p_currency = ''USD'',
       p_purchase_date = day, p_vendor = None, p_notes = None, p_category_id = None,
       p_created_at = day @ ''T09:00:00.000Z'', p_updated_at = day @ ''T09:00:00.000Z'' \<rparr>"

definition exampleDb :: database where
  "exampleDb =
     \<lparr> purchases = [examplePurchase ''p1'' ''2024-03-01'', examplePurchase ''p2'' ''2024-03-02'',
                     examplePurchase ''p3'' ''2024-03-03''],
       purchase_tags = [\<lparr> pt_purchase_id = ''p1'', pt_tag_id = ''A'' \<rparr>,
                        \<lparr> pt_purchase_id = ''p2'', pt_tag_id = ''B'' \<rparr>,
                        \<lparr> pt_purchase_id = ''p3'', pt_tag_id = ''A'' \<rparr>,
                        \<lparr> pt_purchase_id = ''p3'', pt_tag_id = ''B'' \<rparr>],
       tags = [\<lparr> t_id = ''A'', t_name = ''food'', t_color_hex = ''#aabbcc'', t_created_at = ''2024-01-01'' \<rparr>,
               \<lparr> t_id = ''B'', t_name = ''home'', t_color_hex = ''#ccbbaa'', t_created_at = ''2024-01-01'' \<rparr>],
       purchase_images = [],
       monthly_budgets = [],
       app_settings_row = None \<rparr>"

section \<open>services/database.service: settings\<close>

text \<open>The properties of a checked settings object, as a JavaScript object.\<close>

definition filterToRaw :: "PurchaseFilterInput \<Rightarrow> PurchaseFilterRaw" where
  "filterToRaw f =
     \<lparr> rawFromDate = fromDate f, rawToDate = toDate f, rawCategoryIds = categoryIds f,
       rawVendor = vendor f, rawMinAmountCents = minAmountCents f,
       rawMaxAmountCents = maxAmountCents f, rawTagIds = tagIds f, rawQuery = query f,
       rawLimit = Some (limit f), rawOffset = Some (offset f) \<rparr>"

definition settingsToRaw :: "AppSettings \<Rightarrow> AppSettingsRaw" where
  "settingsToRaw s =
     \<lparr> rawTheme = Some (theme s), rawBaseCurrency = Some (baseCurrency s),
       rawOverallMonthlyBudgetCents = Some (overallMonthlyBudgetCents s),
       rawPerformanceMode = Some (performanceMode s), rawPreviewImages = Some (previewImages s),
       rawLastFilters = Some (filterToRaw (lastFilters s)) \<rparr>"

text \<open>
  Modelled from the spec: \<^verbatim>\<open>appSettingsSchema\<close> belongs to the shared package, which is not
  among the sources. The specification describes schemas as validation that rejects
  malformed input, so \<^verbatim>\<open>appSettingsSchema.parse\<close> is modelled as a check: it throws (\<open>None\<close>)
  when a property of the settings or \<^verbatim>\<open>limit\<close> or \<^verbatim>\<open>offset\<close> of \<^verbatim>\<open>lastFilters\<close> is
  undefined or when the constraint \<open>valid\<close> of the schema fails, and returns the object as it
  is otherwise.
\<close>

definition appSettingsSchema_parse :: "(AppSettings \<Rightarrow> bool) \<Rightarrow> AppSettingsRaw \<Rightarrow> AppSettings option" where
  "appSettingsSchema_parse valid raw =
     (case (rawTheme raw, rawBaseCurrency raw, rawOverallMonthlyBudgetCents raw,
            rawPerformanceMode raw, rawPreviewImages raw, rawLastFilters raw) of
        (Some t, Some c, Some b, Some m, Some p, Some lf) \<Rightarrow>
          (case (rawLimit lf, rawOffset lf) of
             (Some l, Some off) \<Rightarrow>
               (let s = \<lparr> theme = t, baseCurrency = c, overallMonthlyBudgetCents = b,
                           performanceMode = m, previewImages = p,
                           lastFilters =
                             \<lparr> fromDate = rawFromDate lf, toDate = rawToDate lf,
                               categoryIds = rawCategoryIds lf, vendor = rawVendor lf,
                               minAmountCents = rawMinAmountCents lf,
                               maxAmountCents = rawMaxAmountCents lf, tagIds = rawTagIds lf,
                               query = rawQuery lf, limit = l, offset = off \<rparr> \<rparr>
                in if valid s then Some s else None)
           | _ \<Rightarrow> None)
      | _ \<Rightarrow> None)"

text \<open>lib/settings: \<^verbatim>\<open>serializeSettings\<close> and \<^verbatim>\<open>deserializeSettings\<close>.\<close>

definition serializeSettings :: "(AppSettings \<Rightarrow> bool) \<Rightarrow> AppSettings \<Rightarrow> settings_json option" where
  "serializeSettings valid settings =
     map_option (\<lambda>s. JsonObject (settingsToRaw s)) (appSettingsSchema_parse valid (settingsToRaw settings))"

definition deserializeSettings :: "(AppSettings \<Rightarrow> bool) \<Rightarrow> settings_json \<Rightarrow> AppSettings option" where
  "deserializeSettings valid raw =
     (case raw of NotJson \<Rightarrow> None | JsonObject obj \<Rightarrow> appSettingsSchema_parse valid obj)"

text \<open>
  The service holds the open store (\<open>None\<close> before \<^verbatim>\<open>init\<close> and after \<^verbatim>\<open>close\<close>) and the
  image that \<^verbatim>\<open>persist\<close> last wrote to the database file.
\<close>

record DatabaseService =
  store :: "database option"
  persisted :: "database option"

definition getSettings :: "(AppSettings \<Rightarrow> bool) \<Rightarrow> DatabaseService \<Rightarrow> db_error + AppSettings" where
  "getSettings valid svc =
     (case store svc of
        None \<Rightarrow> Inl StoreNotInitialized
      | Some db \<Rightarrow>
          (case app_settings_row db of
             None \<Rightarrow> Inr defaultSettings
           | Some value_json \<Rightarrow>
               (case deserializeSettings valid value_json of
                  Some parsed \<Rightarrow> Inr (parsed\<lparr>theme := ''dark''\<rparr>)
                | None \<Rightarrow> Inr defaultSettings)))"

text \<open>
  Object spread of one property: \<^verbatim>\<open>{ ...current, ...input }\<close> keeps the property of
  \<^verbatim>\<open>current\<close> when \<^verbatim>\<open>input\<close> lacks the key and takes that of \<^verbatim>\<open>input\<close> otherwise, also
  when it is \<^verbatim>\<open>undefined\<close>.
\<close>

definition spread :: "'a option \<Rightarrow> 'a property \<Rightarrow> 'a option" where
  "spread current input =
     (case input of Absent \<Rightarrow> current | Undefined \<Rightarrow> None | Present v \<Rightarrow> Some v)"

text \<open>\<^verbatim>\<open>{ ...current.lastFilters, ...input.lastFilters }\<close>; spreading \<^verbatim>\<open>undefined\<close> adds nothing.\<close>

definition spreadLastFilters :: "PurchaseFilterInput \<Rightarrow> PurchaseFilterProps property \<Rightarrow> PurchaseFilterRaw" where
  "spreadLastFilters current input =
     (case input of
        Present lf \<Rightarrow>
          \<lparr> rawFromDate = spread (fromDate current) (inFromDate lf),
            rawToDate = spread (toDate current) (inToDate lf),
            rawCategoryIds = spread (categoryIds current) (inCategoryIds lf),
            rawVendor = spread (vendor current) (inVendor lf),
            rawMinAmountCents = spread (minAmountCents current) (inMinAmountCents lf),
            rawMaxAmountCents = spread (maxAmountCents current) (inMaxAmountCents lf),
            rawTagIds = spread (tagIds current) (inTagIds lf),
            rawQuery = spread (query current) (inQuery lf),
            rawLimit = spread (Some (limit current)) (inLimit lf),
            rawOffset = spread (Some (offset current)) (inOffset lf) \<rparr>
      | _ \<Rightarrow> filterToRaw current)"

text \<open>
  The object literal of \<^verbatim>\<open>updateSettings\<close>:
  \<^verbatim>\<open>{ ...current, ...input, theme: 'dark', lastFilters: { ... } }\<close>.
\<close>

definition mergeSettings :: "AppSettings \<Rightarrow> AppSettingsInput \<Rightarrow> AppSettingsRaw" where
  "mergeSettings current input =
     \<lparr> rawTheme = Some ''dark'',
       rawBaseCurrency = spread (Some (baseCurrency current)) (inBaseCurrency input),
       rawOverallMonthlyBudgetCents =
         spread (Some (overallMonthlyBudgetCents current)) (inOverallMonthlyBudgetCents input),
       rawPerformanceMode = spread (Some (performanceMode current)) (inPerformanceMode input),
       rawPreviewImages = spread (Some (previewImages current)) (inPreviewImages input),
       rawLastFilters = Some (spreadLastFilters (lastFilters current) (inLastFilters input)) \<rparr>"

text \<open>
  \<^verbatim>\<open>updateSettings\<close>: on success the row with key \<^verbatim>\<open>app\<close> holds the serialized \<^verbatim>\<open>next\<close>, the
  store is persisted and \<^verbatim>\<open>next\<close> is returned; an exception leaves the service as it was.
  A failing write of the database file in \<^verbatim>\<open>persist\<close> is not modelled.
\<close>

definition updateSettings ::
  "(AppSettings \<Rightarrow> bool) \<Rightarrow> DatabaseService \<Rightarrow> AppSettingsInput \<Rightarrow> db_error + AppSettings \<times> DatabaseService" where
  "updateSettings valid svc input =
     (case getSettings valid svc of
        Inl e \<Rightarrow> Inl e
      | Inr current \<Rightarrow>
          (case appSettingsSchema_parse valid (mergeSettings current input) of
             None \<Rightarrow> Inl ValidationError
           | Some next \<Rightarrow>
               (case store svc of
                  None \<Rightarrow> Inl StoreNotInitialized
                | Some db \<Rightarrow>
                    (case serializeSettings valid next of
                       None \<Rightarrow> Inl ValidationError
                     | Some value_json \<Rightarrow>
                         (let db' = db\<lparr>app_settings_row := Some value_json\<rparr>
                          in Inr (next, \<lparr> store = Some db', persisted = Some db' \<rparr>))))))"

text \<open>
  Examples: a schema constraint that accepts every object, an input that changes nothing,
  a stored object with the theme \<^verbatim>\<open>light\<close>, and an input that sets some properties.
\<close>

definition acceptAll :: "AppSettings \<Rightarrow> bool" where
  "acceptAll s = True"


definition lightSettings :: AppSettings where
  "lightSettings = defaultSettings\<lparr>theme := ''light'', baseCurrency := ''EUR''\<rparr>"

definition lightDb :: database where
  "lightDb =
     \<lparr> purchases = [], purchase_tags = [], tags = [], purchase_images = [], monthly_budgets = [],
       app_settings_row = Some (JsonObject (settingsToRaw lightSettings)) \<rparr>"

definition lightService :: DatabaseService where
  "lightService = \<lparr> store = Some lightDb, persisted = Some lightDb \<rparr>"

definition budgetAndQuery :: AppSettingsInput where
  "budgetAndQuery =
     \<lparr> inTheme = Present ''light'', inBaseCurrency = Absent,
       inOverallMonthlyBudgetCents = Present 50000,
       inPerformanceMode = Absent, inPreviewImages = Absent,
       inLastFilters = Present
         \<lparr> inFromDate = Absent, inToDate = Absent, inCategoryIds = Absent, inVendor = Absent,
           inMinAmountCents = Absent, inMaxAmountCents = Absent, inTagIds = Undefined,
           inQuery = Present ''milk'', inLimit = Absent, inOffset = Present 20 \<rparr> \<rparr>"

definition budgetAndQueryNext :: AppSettings where
  "budgetAndQueryNext =
     \<lparr> theme = ''dark'', baseCurrency = ''EUR'', overallMonthlyBudgetCents = 50000,
       performanceMode = ''off'', previewImages = True,
       lastFilters = \<lparr> fromDate = None, toDate = None, categoryIds = None, vendor = None,
                       minAmountCents = None, maxAmountCents = None, tagIds = None,
                       query = Some ''milk'', limit = 100, offset = 20 \<rparr> \<rparr>"

definition budgetAndQueryService :: DatabaseService where
  "budgetAndQueryService =
     \<lparr> store = Some (lightDb\<lparr>app_settings_row := Some (JsonObject (settingsToRaw budgetAndQueryNext))\<rparr>),
       persisted = Some (lightDb\<lparr>app_settings_row := Some (JsonObject (settingsToRaw budgetAndQueryNext))\<rparr>) \<rparr>"



section \<open>services/database.service: dashboard summary\<close>









section \<open>lib/path: joining and directory names\<close>

definition trimSlashes :: "string \<Rightarrow> string" where
  "trimSlashes v = rev (dropWhile (\<lambda>c. c = CHR ''/'') (rev (dropWhile (\<lambda>c. c = CHR ''/'') v)))"

definition joinPath :: "string list \<Rightarrow> string" where
  "joinPath parts =
     joinStr ''/'' (map trimSlashes (filter (\<lambda>part. length (trim part) > 0) parts))"

text \<open>\<^verbatim>\<open>lastIndexOf\<close>, with -1 for a character that does not occur.\<close>

fun lastIndexOf :: "string \<Rightarrow> char \<Rightarrow> int" where
  "lastIndexOf [] c = - 1"
| "lastIndexOf (x # xs) c =
     (let i = lastIndexOf xs c
      in if i \<ge> 0 then i + 1 else if x = c then 0 else - 1)"

definition dirname :: "string \<Rightarrow> string" where
  "dirname input =
     (let normalized = normalizePath input;
          index = lastIndexOf normalized CHR ''/''
      in if index \<le> 0 then [] else take (nat index) normalized)"

section \<open>services/backup.service: archives and the host\<close>

text \<open>
  An archive as \<^verbatim>\<open>JSZip\<close> presents it: \<^verbatim>\<open>zip.files\<close> in key order, each object with its
  name, its \<^verbatim>\<open>dir\<close> flag and its bytes. \<^verbatim>\<open>zip.file(name)\<close> finds the object of that name
  unless it is a folder; \<^verbatim>\<open>zip.file(name, data)\<close> replaces the object of that name or appends
  a new one (the folder objects that \<^verbatim>\<open>JSZip\<close> adds for parent paths hold no data and are
  left out).
\<close>

record ZipObject =
  entryName :: string
  isDir :: bool
  entryData :: string

type_synonym archive = "ZipObject list"

definition zipFile :: "archive \<Rightarrow> string \<Rightarrow> ZipObject option" where
  "zipFile arch name =
     (case find (\<lambda>e. entryName e = name) arch of
        None \<Rightarrow> None
      | Some e \<Rightarrow> if isDir e then None else Some e)"

fun zipPut :: "string \<Rightarrow> string \<Rightarrow> archive \<Rightarrow> archive" where
  "zipPut name data [] = [\<lparr> entryName = name, isDir = False, entryData = data \<rparr>]"
| "zipPut name data (e # es) =
     (if entryName e = name then \<lparr> entryName = name, isDir = False, entryData = data \<rparr> # es
      else e # zipPut name data es)"

text \<open>\<^verbatim>\<open>checksums[path] = hash\<close> on an object whose keys keep their insertion order.\<close>

fun setKey :: "string \<Rightarrow> string \<Rightarrow> (string \<times> string) list \<Rightarrow> (string \<times> string) list" where
  "setKey k v [] = [(k, v)]"
| "setKey k v (kv # kvs) = (if fst kv = k then (k, v) # kvs else kv # setKey k v kvs)"

record Manifest =
  schemaVersion :: int
  appVersion :: string
  manifestCreatedAt :: string
  datasetId :: string

text \<open>
  A row as \<^verbatim>\<open>rawAll\<close> returns it and \<^verbatim>\<open>JSON.parse\<close> reads it: column names with their
  values, \<open>None\<close> for \<^verbatim>\<open>null\<close>.
\<close>

type_synonym generic_row = "(string \<times> sql_value option) list"

text \<open>
  What a file of the data directory holds: plain bytes, a zip archive (or bytes that
  \<^verbatim>\<open>JSZip.loadAsync\<close> rejects), or a database image.
\<close>

datatype zip_content = NotAZip | Zip archive

text \<open>
  The collaborators of the backup service, as parameters: the digest, the JSON codecs (a
  parser returns \<open>None\<close> when \<^verbatim>\<open>JSON.parse\<close> throws), number formatting, the success of
  \<^verbatim>\<open>Filesystem.mkdir\<close> (or its ``already exists'' error) and of \<^verbatim>\<open>Filesystem.writeFile\<close> per
  path, and the database engine on an abstract database \<open>'db\<close>: \<open>selectAll\<close> is
  \<^verbatim>\<open>SELECT * FROM <table>\<close>, \<open>selectMediaPaths\<close> is
  \<^verbatim>\<open>SELECT relative_path FROM purchase_images ORDER BY created_at ASC\<close>, \<open>deleteFrom\<close> is
  \<^verbatim>\<open>DELETE FROM <table>\<close>, \<open>insertOrReplace\<close> is \<^verbatim>\<open>INSERT OR REPLACE INTO <table> (<keys>)
  VALUES (...)\<close> and returns \<open>None\<close> when the engine throws, and \<open>openStore\<close> is the database
  after \<^verbatim>\<open>open\<close>, \<^verbatim>\<open>runMigrations\<close> and \<^verbatim>\<open>ensureDefaultSettings\<close> on the image found at the
  database path, if any.
\<close>

record 'db host =
  sha256Hex :: "string \<Rightarrow> string"
  stringifyManifest :: "Manifest \<Rightarrow> string"
  parseManifest :: "string \<Rightarrow> Manifest option"
  stringifyChecksums :: "(string \<times> string) list \<Rightarrow> string"
  parseChecksums :: "string \<Rightarrow> (string \<times> string) list option"
  stringifyRows :: "generic_row list \<Rightarrow> string"
  parseRows :: "string \<Rightarrow> generic_row list option"
  numberToString :: "int \<Rightarrow> string"
  mkdirOk :: "string \<Rightarrow> bool"
  writeOk :: "string \<Rightarrow> bool"
  selectAll :: "'db \<Rightarrow> string \<Rightarrow> generic_row list"
  selectMediaPaths :: "'db \<Rightarrow> string list"
  deleteFrom :: "string \<Rightarrow> 'db \<Rightarrow> 'db"
  insertOrReplace :: "string \<Rightarrow> string list \<Rightarrow> sql_value option list \<Rightarrow> 'db \<Rightarrow> 'db option"
  openStore :: "'db option \<Rightarrow> 'db"

text \<open>
  The state that the backup service works on: the snapshot metadata, the fields
  \<^verbatim>\<open>activeDatasetId\<close> and \<^verbatim>\<open>store\<close> of the database service, and the files of the data
  directory by kind (database images, plain files, zip files).
\<close>

record 'db world =
  w_meta :: "SnapshotMeta list"
  w_activeDatasetId :: string
  w_store :: "'db option"
  w_dbImages :: "string \<Rightarrow> 'db option"
  w_dataFiles :: "string \<Rightarrow> string option"
  w_zipFiles :: "string \<Rightarrow> zip_content option"

datatype validation_issue =
    CannotRead
  | InvalidPaths
  | MissingManifest
  | ManifestNotJson
  | UnsupportedSchemaVersion int
  | MissingExpectedFile string
  | ChecksumMismatch string

datatype validation_warning = MissingChecksums

datatype backup_error =
    ZipLoadFailed
  | ChecksumsNotJson
  | ImportValidationFailed "validation_issue list"
  | SnapshotMissing string
  | StoreNotOpen
  | RowsNotJson string
  | EngineError string
  | MkdirFailed string
  | ReadFailed string
  | WriteFailed string

text \<open>
  \<^verbatim>\<open>ImportValidationResult\<close>; its fields \<^verbatim>\<open>valid\<close>, \<^verbatim>\<open>errors\<close>, \<^verbatim>\<open>warnings\<close> and \<^verbatim>\<open>manifest\<close>
  carry the prefix \<open>v_\<close>, and the messages are constructors instead of texts.
\<close>

record ImportValidationResult =
  v_valid :: bool
  v_errors :: "validation_issue list"
  v_warnings :: "validation_warning list"
  v_manifest :: "Manifest option"

definition EXPORT_TABLES :: "string list" where
  "EXPORT_TABLES =
     [''categories'', ''tags'', ''purchases'', ''purchase_images'', ''purchase_tags'',
      ''monthly_budgets'', ''ocr_extractions'', ''app_settings'', ''dataset_snapshots'']"

definition IMPORT_TABLES :: "string list" where
  "IMPORT_TABLES = EXPORT_TABLES"

definition CSV_TABLES :: "string list" where
  "CSV_TABLES = EXPORT_TABLES"

text \<open>Paths of the paths service.\<close>

definition dataDir :: string where
  "dataDir = joinPath [''BookkeepingApp'', ''data'']"

definition exportsDir :: string where
  "exportsDir = joinPath [''BookkeepingApp'', ''exports'']"

definition getDatasetDir :: "string \<Rightarrow> string" where
  "getDatasetDir datasetId' = joinPath [dataDir, datasetId']"

definition getDatabasePath :: "string \<Rightarrow> string" where
  "getDatabasePath datasetId' = joinPath [getDatasetDir datasetId', ''bookkeeping.db'']"

definition getMediaDir :: "string \<Rightarrow> string" where
  "getMediaDir datasetId' = joinPath [getDatasetDir datasetId', ''media'']"

section \<open>services/backup.service: export\<close>

definition toCsvCell :: "string \<Rightarrow> string" where
  "toCsvCell v = ''\"'' @ concat (map (\<lambda>c. if c = CHR ''\"'' then ''\"\"'' else [c]) v) @ ''\"''"

text \<open>\<^verbatim>\<open>String(row[key] ?? '')\<close>.\<close>

definition cellText :: "(int \<Rightarrow> string) \<Rightarrow> generic_row \<Rightarrow> string \<Rightarrow> string" where
  "cellText showNumber row key =
     (case map_of row key of
        None \<Rightarrow> []
      | Some None \<Rightarrow> []
      | Some (Some (SqlText s)) \<Rightarrow> s
      | Some (Some (SqlInt n)) \<Rightarrow> showNumber n)"

definition toCsv :: "(int \<Rightarrow> string) \<Rightarrow> generic_row list \<Rightarrow> string" where
  "toCsv showNumber rows =
     (case rows of
        [] \<Rightarrow> []
      | first # _ \<Rightarrow>
          (let headers = map fst first;
               headerRow = joinStr '','' (map toCsvCell headers);
               body = map (\<lambda>row. joinStr '','' (map (\<lambda>key. toCsvCell (cellText showNumber row key)) headers)) rows
           in joinStr [CHR 0x0D, CHR 0x0A] (headerRow # body)))"

text \<open>
  The export works on a pair of the archive under construction and the \<^verbatim>\<open>checksums\<close>
  object. Each step adds a file to the archive and its digest to the object.
\<close>

type_synonym export_acc = "archive \<times> (string \<times> string) list"

definition addWithChecksum :: "'db host \<Rightarrow> string \<Rightarrow> string \<Rightarrow> export_acc \<Rightarrow> export_acc" where
  "addWithChecksum h path bytes acc =
     (zipPut path bytes (fst acc), setKey path (sha256Hex h bytes) (snd acc))"

definition exportJsonTable :: "'db host \<Rightarrow> 'db \<Rightarrow> export_acc \<Rightarrow> string \<Rightarrow> export_acc" where
  "exportJsonTable h db acc table =
     (let rows = selectAll h db table;
          jsonBytes = stringifyRows h rows;
          jsonPath = ''json/'' @ table @ ''.json''
      in addWithChecksum h jsonPath jsonBytes acc)"

definition exportCsvTable :: "'db host \<Rightarrow> 'db \<Rightarrow> export_acc \<Rightarrow> string \<Rightarrow> export_acc" where
  "exportCsvTable h db acc table =
     (let rows = selectAll h db table;
          csvBytes = toCsv (numberToString h) rows;
          csvPath = ''csv/'' @ table @ ''.csv''
      in addWithChecksum h csvPath csvBytes acc)"

text \<open>The loop over the image rows; reading a missing media file throws.\<close>

fun exportMedia ::
  "'db host \<Rightarrow> (string \<Rightarrow> string option) \<Rightarrow> string \<Rightarrow> string list \<Rightarrow> export_acc \<Rightarrow>
     backup_error + export_acc" where
  "exportMedia h files mediaRoot [] acc = Inr acc"
| "exportMedia h files mediaRoot (relativePath # rest) acc =
     (let absolutePath = joinPath [mediaRoot, relativePath]
      in case files absolutePath of
           None \<Rightarrow> Inl (ReadFailed absolutePath)
         | Some mediaBytes \<Rightarrow>
             (let zipPath = ''media/'' @ replaceBackslashes relativePath
              in exportMedia h files mediaRoot rest (addWithChecksum h zipPath mediaBytes acc)))"

text \<open>
  The archive and the \<^verbatim>\<open>checksums\<close> object as they are when \<^verbatim>\<open>checksums.json\<close> is about to be
  written.
\<close>

definition exportContents :: "'db host \<Rightarrow> string \<Rightarrow> 'db world \<Rightarrow> backup_error + export_acc" where
  "exportContents h now w =
     (let manifest = \<lparr> schemaVersion = 1, appVersion = ''1.0.0'', manifestCreatedAt = now,
                        datasetId = w_activeDatasetId w \<rparr>;
          manifestBytes = stringifyManifest h manifest;
          acc1 = addWithChecksum h ''manifest.json'' manifestBytes ([], [])
      in case w_store w of
           None \<Rightarrow> Inl StoreNotOpen
         | Some db \<Rightarrow>
             (let acc2 = foldl (exportJsonTable h db) acc1 EXPORT_TABLES;
                  acc3 = foldl (exportCsvTable h db) acc2 CSV_TABLES
              in exportMedia h (w_dataFiles w) (getMediaDir (w_activeDatasetId w))
                   (selectMediaPaths h db) acc3))"

text \<open>\<^verbatim>\<open>new Date().toISOString().replace(/[:.]/g, '-')\<close>.\<close>

definition fileStamp :: "string \<Rightarrow> string" where
  "fileStamp now = map (\<lambda>c. if c = CHR '':'' \<or> c = CHR ''.'' then CHR ''-'' else c) now"

text \<open>
  \<^verbatim>\<open>exportZip\<close>: the result is the output path or the exception, together with the state
  afterwards. The clock reading \<open>now\<close> serves both the file name and the manifest.
\<close>

definition exportZip ::
  "'db host \<Rightarrow> string \<Rightarrow> 'db world \<Rightarrow> string option \<Rightarrow> (backup_error + string) \<times> 'db world" where
  "exportZip h now w destinationPath =
     (let destination =
            (case destinationPath of
               Some d \<Rightarrow> d
             | None \<Rightarrow> joinPath [exportsDir, ''bookkeeping-export-'' @ fileStamp now @ ''.zip''])
      in if \<not> mkdirOk h (dirname destination) then (Inl (MkdirFailed (dirname destination)), w)
         else case exportContents h now w of
                Inl e \<Rightarrow> (Inl e, w)
              | Inr acc \<Rightarrow>
                  (let arch = zipPut ''checksums.json'' (stringifyChecksums h (snd acc)) (fst acc)
                   in if \<not> writeOk h destination then (Inl (WriteFailed destination), w)
                      else (Inr destination,
                            w\<lparr>w_zipFiles := (w_zipFiles w)(destination := Some (Zip arch))\<rparr>)))"

text \<open>The name and digest of every object of an archive.\<close>

definition digests :: "'db host \<Rightarrow> archive \<Rightarrow> (string \<times> string) list" where
  "digests h arch = map (\<lambda>e. (entryName e, sha256Hex h (entryData e))) arch"

text \<open>
  The accumulator of the export is consistent: the \<^verbatim>\<open>checksums\<close> object lists exactly the
  objects of the archive, each with the digest of its bytes; all of them are files, and none
  is called \<^verbatim>\<open>checksums.json\<close>.
\<close>

definition exportConsistent :: "'db host \<Rightarrow> export_acc \<Rightarrow> bool" where
  "exportConsistent h acc =
     (snd acc = digests h (fst acc) \<and>
      list_all (\<lambda>e. \<not> isDir e \<and> entryName e \<noteq> ''checksums.json'') (fst acc))"

text \<open>The archive that a zip file holds; empty when there is no such file.\<close>

definition archiveOf :: "zip_content option \<Rightarrow> archive" where
  "archiveOf content = (case content of Some (Zip arch) \<Rightarrow> arch | _ \<Rightarrow> [])"

section \<open>services/backup.service: validation and import\<close>

text \<open>The loop of \<^verbatim>\<open>validateZip\<close> over the entries of \<^verbatim>\<open>checksums.json\<close>.\<close>

fun checksumIssues :: "'db host \<Rightarrow> archive \<Rightarrow> (string \<times> string) list \<Rightarrow> validation_issue list" where
  "checksumIssues h arch [] = []"
| "checksumIssues h arch ((filePath, expectedHash) # rest) =
     (case zipFile arch filePath of
        None \<Rightarrow> MissingExpectedFile filePath # checksumIssues h arch rest
      | Some entry \<Rightarrow>
          (if sha256Hex h (entryData entry) \<noteq> expectedHash
           then ChecksumMismatch filePath # checksumIssues h arch rest
           else checksumIssues h arch rest))"

text \<open>
  \<^verbatim>\<open>validateZip\<close> on what \<^verbatim>\<open>readZipBytes\<close> finds at the path (\<open>None\<close> when reading throws).
  A manifest that parses keeps its place in the result also when its version is rejected.
  The final \<^verbatim>\<open>importValidationResultSchema.parse\<close> receives an object of the shape built
  here and returns it.
\<close>

definition validateZip :: "'db host \<Rightarrow> zip_content option \<Rightarrow> backup_error + ImportValidationResult" where
  "validateZip h source =
     (case source of
        None \<Rightarrow> Inr \<lparr> v_valid = False, v_errors = [CannotRead], v_warnings = [], v_manifest = None \<rparr>
      | Some NotAZip \<Rightarrow> Inl ZipLoadFailed
      | Some (Zip arch) \<Rightarrow>
          (let entries = map entryName arch;
               errors1 = (if list_ex isUnsafeRelativePath entries then [InvalidPaths] else []);
               errors2 = errors1 @ (if ''manifest.json'' \<notin> set entries then [MissingManifest] else []);
               warnings = (if ''checksums.json'' \<notin> set entries then [MissingChecksums] else []);
               checked =
                 (if errors2 = [] then
                    (case zipFile arch ''manifest.json'' of
                       None \<Rightarrow> ([MissingManifest], None)
                     | Some manifestFile \<Rightarrow>
                         (case parseManifest h (entryData manifestFile) of
                            None \<Rightarrow> ([ManifestNotJson], None)
                          | Some m \<Rightarrow>
                              (if schemaVersion m \<noteq> 1 then [UnsupportedSchemaVersion (schemaVersion m)]
                               else [], Some m)))
                  else (errors2, None));
               finish = (\<lambda>errors. Inr \<lparr> v_valid = (errors = []), v_errors = errors,
                                         v_warnings = warnings, v_manifest = snd checked \<rparr>)
           in if ''checksums.json'' \<in> set entries then
                (case zipFile arch ''checksums.json'' of
                   None \<Rightarrow> finish (fst checked)
                 | Some checksumsFile \<Rightarrow>
                     (case parseChecksums h (entryData checksumsFile) of
                        None \<Rightarrow> Inl ChecksumsNotJson
                      | Some expected \<Rightarrow> finish (fst checked @ checksumIssues h arch expected)))
              else finish (fst checked)))"

text \<open>
  \<^verbatim>\<open>switchSnapshot\<close> of the database service: activate the snapshot in the metadata, then
  open the store of that dataset and persist it. As in the metadata section, writing the
  metadata file is taken to succeed; writing the database file may fail.
\<close>

definition persistStore :: "'db host \<Rightarrow> 'db world \<Rightarrow> (backup_error + unit) \<times> 'db world" where
  "persistStore h w =
     (case w_store w of
        None \<Rightarrow> (Inl StoreNotOpen, w)
      | Some db \<Rightarrow>
          (let dbPath = getDatabasePath (w_activeDatasetId w)
           in if \<not> writeOk h dbPath then (Inl (WriteFailed dbPath), w)
              else (Inr (), w\<lparr>w_dbImages := (w_dbImages w)(dbPath := Some db)\<rparr>)))"

definition switchSnapshot :: "'db host \<Rightarrow> string \<Rightarrow> 'db world \<Rightarrow> (backup_error + unit) \<times> 'db world" where
  "switchSnapshot h snapshotId w =
     (case activateSnapshot snapshotId (w_meta w) of
        (Inl e, meta) \<Rightarrow> (Inl (SnapshotMissing snapshotId), w)
      | (Inr u, meta) \<Rightarrow>
          (let opened = openStore h (w_dbImages w (getDatabasePath snapshotId))
           in persistStore h
                (w\<lparr>w_meta := meta, w_activeDatasetId := snapshotId, w_store := Some opened\<rparr>)))"

text \<open>
  The inner loop over the rows of one table; on an exception the store keeps the rows
  inserted so far.
\<close>

fun insertRows ::
  "'db host \<Rightarrow> string \<Rightarrow> string list \<Rightarrow> generic_row list \<Rightarrow> 'db \<Rightarrow> (backup_error + unit) \<times> 'db" where
  "insertRows h table keys [] db = (Inr (), db)"
| "insertRows h table keys (row # rows) db =
     (case insertOrReplace h table keys
             (map (\<lambda>key. case map_of row key of None \<Rightarrow> None | Some v \<Rightarrow> v) keys) db of
        None \<Rightarrow> (Inl (EngineError table), db)
      | Some db' \<Rightarrow> insertRows h table keys rows db')"

text \<open>
  The loop over \<^verbatim>\<open>IMPORT_TABLES\<close>. The result pairs the outcome with the store as the loop
  leaves it, which on an exception holds the changes made so far.
\<close>

fun importTables ::
  "'db host \<Rightarrow> archive \<Rightarrow> string list \<Rightarrow> 'db \<Rightarrow> (backup_error + unit) \<times> 'db" where
  "importTables h arch [] db = (Inr (), db)"
| "importTables h arch (table # tables) db =
     (case zipFile arch (''json/'' @ table @ ''.json'') of
        None \<Rightarrow> importTables h arch tables db
      | Some file \<Rightarrow>
          (case parseRows h (entryData file) of
             None \<Rightarrow> (Inl (RowsNotJson table), db)
           | Some rows \<Rightarrow>
               (let cleared = deleteFrom h table db
                in case rows of
                     [] \<Rightarrow> importTables h arch tables cleared
                   | first # _ \<Rightarrow>
                       (case insertRows h table (map fst first) rows cleared of
                          (Inl e, db') \<Rightarrow> (Inl e, db')
                        | (Inr u, db') \<Rightarrow> importTables h arch tables db'))))"

text \<open>
  The body of the loop over \<^verbatim>\<open>Object.keys(zip.files)\<close> that writes the media files;
  \<open>files\<close> are the plain files of the data directory. A \<^verbatim>\<open>continue\<close> leaves them as they
  are, and a failing \<^verbatim>\<open>ensureDir\<close> or \<^verbatim>\<open>writeFile\<close> throws.
\<close>

definition importMediaEntry ::
  "'db host \<Rightarrow> archive \<Rightarrow> string \<Rightarrow> string \<Rightarrow> (string \<Rightarrow> string option) \<Rightarrow>
     (backup_error + unit) \<times> (string \<Rightarrow> string option)" where
  "importMediaEntry h arch mediaRoot name files =
     (if \<not> startsWith name ''media/'' \<or> endsWith name ''/'' then (Inr (), files)
      else
        (let relativeMediaPath = drop (length ''media/'') name
         in if relativeMediaPath = [] \<or> isUnsafeRelativePath relativeMediaPath then (Inr (), files)
            else
              (case zipFile arch name of
                 None \<Rightarrow> (Inr (), files)
               | Some mediaFile \<Rightarrow>
                   (let destination = joinPath [mediaRoot, relativeMediaPath]
                    in if \<not> mkdirOk h (dirname destination)
                       then (Inl (MkdirFailed (dirname destination)), files)
                       else if \<not> writeOk h destination then (Inl (WriteFailed destination), files)
                       else (Inr (), files(destination := Some (entryData mediaFile)))))))"

text \<open>The loop: an exception of the body ends it with the files written so far.\<close>

fun importMedia ::
  "'db host \<Rightarrow> archive \<Rightarrow> string \<Rightarrow> string list \<Rightarrow> (string \<Rightarrow> string option) \<Rightarrow>
     (backup_error + unit) \<times> (string \<Rightarrow> string option)" where
  "importMedia h arch mediaRoot [] files = (Inr (), files)"
| "importMedia h arch mediaRoot (name # names) files =
     (case importMediaEntry h arch mediaRoot name files of
        (Inl e, files') \<Rightarrow> (Inl e, files')
      | (Inr u, files') \<Rightarrow> importMedia h arch mediaRoot names files')"

record ImportRequest =
  zipPath :: string
  requestLabel :: "string option"

text \<open>
  \<^verbatim>\<open>importZip\<close>. \<open>newId\<close> is the identifier from \<^verbatim>\<open>nanoid\<close>, \<open>now\<close> the clock reading and
  \<open>localNow\<close> its \<^verbatim>\<open>toLocaleString\<close> form. The result is the snapshot or the exception,
  together with the state at that moment.
\<close>

definition importZip ::
  "'db host \<Rightarrow> string \<Rightarrow> string \<Rightarrow> string \<Rightarrow> 'db world \<Rightarrow> ImportRequest \<Rightarrow>
     (backup_error + SnapshotMeta) \<times> 'db world" where
  "importZip h newId now localNow w request =
     (case validateZip h (w_zipFiles w (zipPath request)) of
        Inl e \<Rightarrow> (Inl e, w)
      | Inr validation \<Rightarrow>
          if \<not> v_valid validation then (Inl (ImportValidationFailed (v_errors validation)), w)
          else
            (case w_zipFiles w (zipPath request) of
               None \<Rightarrow> (Inl (ReadFailed (zipPath request)), w)
             | Some NotAZip \<Rightarrow> (Inl ZipLoadFailed, w)
             | Some (Zip arch) \<Rightarrow>
                 (let added = addSnapshot
                        \<lparr> snapId = newId,
                          label = (case requestLabel request of Some l \<Rightarrow> l | None \<Rightarrow> ''Imported '' @ localNow),
                          createdAt = now, sourceZip = Some (zipPath request), isActive = False \<rparr>
                        False (w_meta w);
                      snapshot = fst added;
                      w1 = w\<lparr>w_meta := snd added\<rparr>
                  in case switchSnapshot h (snapId snapshot) w1 of
                       (Inl e, w2) \<Rightarrow> (Inl e, w2)
                     | (Inr u, w2) \<Rightarrow>
                         (case w_store w2 of
                            None \<Rightarrow> (Inl StoreNotOpen, w2)
                          | Some db \<Rightarrow>
                              (case importTables h arch IMPORT_TABLES db of
                                 (Inl e, db') \<Rightarrow> (Inl e, w2\<lparr>w_store := Some db'\<rparr>)
                               | (Inr u', db') \<Rightarrow>
                                   (let w3 = w2\<lparr>w_store := Some db'\<rparr>
                                    in case importMedia h arch (getMediaDir (w_activeDatasetId w3))
                                              (map entryName arch) (w_dataFiles w3) of
                                         (Inl e, files) \<Rightarrow> (Inl e, w3\<lparr>w_dataFiles := files\<rparr>)
                                       | (Inr u'', files) \<Rightarrow>
                                           (case persistStore h (w3\<lparr>w_dataFiles := files\<rparr>) of
                                              (Inl e, w4) \<Rightarrow> (Inl e, w4)
                                            | (Inr u''', w4) \<Rightarrow>
                                                (Inr (snapshot\<lparr>isActive := True\<rparr>), w4))))))))"

text \<open>
  Where the media loop writes an entry: \<open>None\<close> for the entries that it skips.
\<close>

definition mediaDestination :: "archive \<Rightarrow> string \<Rightarrow> string \<Rightarrow> string option" where
  "mediaDestination arch mediaRoot name =
     (if \<not> startsWith name ''media/'' \<or> endsWith name ''/'' then None
      else if drop (length ''media/'') name = [] \<or> isUnsafeRelativePath (drop (length ''media/'') name)
      then None
      else (case zipFile arch name of
              None \<Rightarrow> None
            | Some mediaFile \<Rightarrow> Some (joinPath [mediaRoot, drop (length ''media/'') name])))"

section \<open>Backup examples\<close>

text \<open>
  A host for the examples. The database is a list of rows per table; the JSON codecs know
  the documents of the examples: the manifest text \<^verbatim>\<open>M1\<close> is a manifest of schema version 1
  and \<^verbatim>\<open>[]\<close> is an empty array of rows; the digest of a text is the text in brackets. The
  host is given the paths whose \<^verbatim>\<open>writeFile\<close> fails.
\<close>

type_synonym example_db = "(string \<times> generic_row list) list"

definition exampleManifest :: Manifest where
  "exampleManifest =
     \<lparr> schemaVersion = 1, appVersion = ''1.0.0'', manifestCreatedAt = ''2024-05-01T10:00:00.000Z'',
       datasetId = ''d0'' \<rparr>"

definition exampleHost :: "string list \<Rightarrow> example_db host" where
  "exampleHost failing =
     \<lparr> sha256Hex = (\<lambda>bytes. ''<'' @ bytes @ ''>''),
       stringifyManifest = (\<lambda>m. ''M1''),
       parseManifest = (\<lambda>text. if text = ''M1'' then Some exampleManifest else None),
       stringifyChecksums = (\<lambda>cs. concat (map (\<lambda>(k, v). k @ '':'' @ v @ '';'') cs)),
       parseChecksums = (\<lambda>text. None),
       stringifyRows = (\<lambda>rows. if rows = [] then ''[]'' else ''[...]''),
       parseRows = (\<lambda>text. if text = ''[]'' then Some [] else None),
       numberToString = (\<lambda>n. ''0''),
       mkdirOk = (\<lambda>path. True),
       writeOk = (\<lambda>path. path \<notin> set failing),
       selectAll = (\<lambda>db table. case map_of db table of None \<Rightarrow> [] | Some rows \<Rightarrow> rows),
       selectMediaPaths = (\<lambda>db. []),
       deleteFrom = (\<lambda>table db. (table, []) # filter (\<lambda>(t, rows). t \<noteq> table) db),
       insertOrReplace = (\<lambda>table keys vals db. Some db),
       openStore = (\<lambda>image. case image of None \<Rightarrow> [] | Some db \<Rightarrow> db) \<rparr>"

definition exampleWorld :: "archive \<Rightarrow> example_db world" where
  "exampleWorld arch =
     \<lparr> w_meta = [snapDefault], w_activeDatasetId = ''d0'', w_store = Some [],
       w_dbImages = (\<lambda>path. None), w_dataFiles = (\<lambda>path. None),
       w_zipFiles = (\<lambda>path. if path = ''backup.zip'' then Some (Zip arch) else None) \<rparr>"

definition exampleRequest :: ImportRequest where
  "exampleRequest = \<lparr> zipPath = ''backup.zip'', requestLabel = Some ''Imported'' \<rparr>"

definition fileEntry :: "string \<Rightarrow> string \<Rightarrow> ZipObject" where
  "fileEntry name data = \<lparr> entryName = name, isDir = False, entryData = data \<rparr>"

text \<open>An archive with a traversal entry, and an archive with two media files.\<close>

definition traversalZip :: archive where
  "traversalZip = [fileEntry ''manifest.json'' ''M1'', fileEntry ''media/../../etc/passwd'' ''root'']"

definition twoMediaZip :: archive where
  "twoMediaZip =
     [fileEntry ''manifest.json'' ''M1'', fileEntry ''json/tags.json'' ''[]'',
      fileEntry ''media/p1/a.jpg'' ''AAA'', fileEntry ''media/p1/b.jpg'' ''BBB'']"

section \<open>Rounding to two decimals\<close>



section \<open>Path traversal check\<close>

text \<open>
  Claim C1. An entry name with a traversal sequence such as \<^verbatim>\<open>media/../../etc/passwd\<close> is
  to be reported unsafe by \<^verbatim>\<open>isUnsafeRelativePath\<close>, rejected by \<^verbatim>\<open>validateZip\<close> and not
  written by \<^verbatim>\<open>importZip\<close>. The code does none of this: \<^verbatim>\<open>normalizePath\<close> drops a \<^verbatim>\<open>..\<close>
  that has nothing left to pop, so the normalized path is \<^verbatim>\<open>etc/passwd\<close> and none of the three
  tests of \<^verbatim>\<open>isUnsafeRelativePath\<close> fires. An archive with a manifest and that entry is
  valid, and the import writes the entry's bytes to the media root followed by
  \<^verbatim>\<open>../../etc/passwd\<close>.
\<close>

theorem isUnsafeRelativePath_misses_traversal:
  "normalizePath ''media/../../etc/passwd'' = ''etc/passwd'' \<and>
   isUnsafeRelativePath ''media/../../etc/passwd'' = False \<and>
   isUnsafeRelativePath ''../../etc/passwd'' = False \<and>
   validateZip (exampleHost []) (Some (Zip traversalZip)) =
     Inr \<lparr> v_valid = True, v_errors = [], v_warnings = [MissingChecksums],
           v_manifest = Some exampleManifest \<rparr> \<and>
   fst (importZip (exampleHost []) ''imp1'' ''2024-05-01T10:00:00.000Z'' ''5/1/2024''
          (exampleWorld traversalZip) exampleRequest) =
     Inr (snapImported\<lparr>isActive := True\<rparr>) \<and>
   w_dataFiles (snd (importZip (exampleHost []) ''imp1'' ''2024-05-01T10:00:00.000Z'' ''5/1/2024''
          (exampleWorld traversalZip) exampleRequest))
     ''BookkeepingApp/data/imp1/media/../../etc/passwd'' = Some ''root''"
  by code_simp

section \<open>Export: the checksums of an archive\<close>

lemma digests_zipPut:
  "digests h (zipPut name data arch) = setKey name (sha256Hex h data) (digests h arch)"
  by (induction arch) (simp_all add: digests_def)

lemma names_zipPut: "set (map entryName (zipPut name data arch)) = insert name (set (map entryName arch))"
  by (induction arch) auto

lemma zipPut_fresh:
  "name \<notin> set (map entryName arch) \<Longrightarrow>
   zipPut name data arch = arch @ [\<lparr> entryName = name, isDir = False, entryData = data \<rparr>]"
  by (induction arch) auto

lemma list_all_zipPut:
  "list_all P arch \<Longrightarrow> P \<lparr> entryName = name, isDir = False, entryData = data \<rparr> \<Longrightarrow>
   list_all P (zipPut name data arch)"
  by (induction arch) auto

lemma consistent_add:
  "exportConsistent h acc \<Longrightarrow> path \<noteq> ''checksums.json'' \<Longrightarrow>
   exportConsistent h (addWithChecksum h path bytes acc)"
  by (simp add: exportConsistent_def addWithChecksum_def digests_zipPut list_all_zipPut)

lemma names_add:
  "set (map entryName (fst (addWithChecksum h path bytes acc))) =
     insert path (set (map entryName (fst acc)))"
  by (simp add: addWithChecksum_def names_zipPut del: set_map)

lemma consistent_json:
  "exportConsistent h acc \<Longrightarrow> exportConsistent h (exportJsonTable h db acc table)"
  by (simp add: exportJsonTable_def Let_def consistent_add)

lemma consistent_csv:
  "exportConsistent h acc \<Longrightarrow> exportConsistent h (exportCsvTable h db acc table)"
  by (simp add: exportCsvTable_def Let_def consistent_add)

lemma names_json:
  "set (map entryName (fst (exportJsonTable h db acc table))) =
     insert (''json/'' @ table @ ''.json'') (set (map entryName (fst acc)))"
  by (simp add: exportJsonTable_def Let_def names_add del: set_map)

lemma names_csv:
  "set (map entryName (fst (exportCsvTable h db acc table))) =
     insert (''csv/'' @ table @ ''.csv'') (set (map entryName (fst acc)))"
  by (simp add: exportCsvTable_def Let_def names_add del: set_map)

lemma consistent_foldl_json:
  "exportConsistent h acc \<Longrightarrow> exportConsistent h (foldl (exportJsonTable h db) acc tables)"
  by (induction tables arbitrary: acc) (simp_all add: consistent_json)

lemma consistent_foldl_csv:
  "exportConsistent h acc \<Longrightarrow> exportConsistent h (foldl (exportCsvTable h db) acc tables)"
  by (induction tables arbitrary: acc) (simp_all add: consistent_csv)

lemma names_foldl_json:
  "set (map entryName (fst (foldl (exportJsonTable h db) acc tables))) =
     (\<lambda>table. ''json/'' @ table @ ''.json'') ` set tables \<union> set (map entryName (fst acc))"
  by (induction tables arbitrary: acc) (auto simp: names_json simp del: set_map)

lemma names_foldl_csv:
  "set (map entryName (fst (foldl (exportCsvTable h db) acc tables))) =
     (\<lambda>table. ''csv/'' @ table @ ''.csv'') ` set tables \<union> set (map entryName (fst acc))"
  by (induction tables arbitrary: acc) (auto simp: names_csv simp del: set_map)

lemma exportMedia_consistent:
  "exportMedia h files mroot paths acc = Inr acc' \<Longrightarrow> exportConsistent h acc \<Longrightarrow>
   exportConsistent h acc'"
proof (induction paths arbitrary: acc)
  case Nil
  then show ?case by simp
next
  case (Cons p paths)
  from Cons.prems(1) obtain bytes where
    r: "files (joinPath [mroot, p]) = Some bytes" and
    rest: "exportMedia h files mroot paths
             (addWithChecksum h (''media/'' @ replaceBackslashes p) bytes acc) = Inr acc'"
    by (auto simp: Let_def split: option.splits)
  from Cons.prems(2) have "exportConsistent h (addWithChecksum h (''media/'' @ replaceBackslashes p) bytes acc)"
    by (simp add: consistent_add)
  with Cons.IH rest show ?case by blast
qed

lemma exportMedia_names:
  "exportMedia h files mroot paths acc = Inr acc' \<Longrightarrow>
   set (map entryName (fst acc')) =
     (\<lambda>p. ''media/'' @ replaceBackslashes p) ` set paths \<union> set (map entryName (fst acc))"
proof (induction paths arbitrary: acc)
  case Nil
  then show ?case by simp
next
  case (Cons p paths)
  from Cons.prems(1) obtain bytes where
    rest: "exportMedia h files mroot paths
             (addWithChecksum h (''media/'' @ replaceBackslashes p) bytes acc) = Inr acc'"
    by (auto simp: Let_def split: option.splits)
  from Cons.IH [OF rest] show ?case
    by (auto simp: names_add simp del: set_map)
qed

lemma exportContents_consistent:
  assumes "exportContents h now w = Inr acc"
  shows "exportConsistent h acc"
proof -
  from assms obtain db where db: "w_store w = Some db"
    by (auto simp: exportContents_def Let_def split: option.splits)
  let ?m = "stringifyManifest h \<lparr> schemaVersion = 1, appVersion = ''1.0.0'', manifestCreatedAt = now,
                        datasetId = w_activeDatasetId w \<rparr>"
  let ?acc1 = "addWithChecksum h ''manifest.json'' ?m ([], [])"
  let ?acc3 = "foldl (exportCsvTable h db) (foldl (exportJsonTable h db) ?acc1 EXPORT_TABLES) CSV_TABLES"
  have "exportConsistent h ([], [])" by (simp add: exportConsistent_def digests_def)
  then have "exportConsistent h ?acc1" by (simp add: consistent_add)
  then have c3: "exportConsistent h ?acc3"
    by (intro consistent_foldl_csv consistent_foldl_json)
  from assms db have "exportMedia h (w_dataFiles w) (getMediaDir (w_activeDatasetId w))
                   (selectMediaPaths h db) ?acc3 = Inr acc"
    by (simp add: exportContents_def Let_def)
  from exportMedia_consistent [OF this c3] show ?thesis .
qed

lemma exportContents_names:
  assumes "exportContents h now w = Inr acc"
  shows "\<exists>db. w_store w = Some db \<and>
     set (map entryName (fst acc)) =
       {''manifest.json''} \<union> (\<lambda>table. ''json/'' @ table @ ''.json'') ` set EXPORT_TABLES \<union>
       (\<lambda>table. ''csv/'' @ table @ ''.csv'') ` set CSV_TABLES \<union>
       (\<lambda>p. ''media/'' @ replaceBackslashes p) ` set (selectMediaPaths h db)"
proof -
  from assms obtain db where db: "w_store w = Some db"
    by (auto simp: exportContents_def Let_def split: option.splits)
  let ?m = "stringifyManifest h \<lparr> schemaVersion = 1, appVersion = ''1.0.0'', manifestCreatedAt = now,
                        datasetId = w_activeDatasetId w \<rparr>"
  let ?acc1 = "addWithChecksum h ''manifest.json'' ?m ([], [])"
  let ?acc3 = "foldl (exportCsvTable h db) (foldl (exportJsonTable h db) ?acc1 EXPORT_TABLES) CSV_TABLES"
  from assms db have m: "exportMedia h (w_dataFiles w) (getMediaDir (w_activeDatasetId w))
                   (selectMediaPaths h db) ?acc3 = Inr acc"
    by (simp add: exportContents_def Let_def)
  have n1: "set (map entryName (fst ?acc1)) = {''manifest.json''}"
    by (simp add: addWithChecksum_def)
  have "set (map entryName (fst acc)) =
       (\<lambda>p. ''media/'' @ replaceBackslashes p) ` set (selectMediaPaths h db) \<union>
       ((\<lambda>table. ''csv/'' @ table @ ''.csv'') ` set CSV_TABLES \<union>
        ((\<lambda>table. ''json/'' @ table @ ''.json'') ` set EXPORT_TABLES \<union> {''manifest.json''}))"
    unfolding exportMedia_names [OF m] names_foldl_csv names_foldl_json n1 ..
  with db show ?thesis by (intro exI [of _ db]) auto
qed

lemma exportZip_InrD:
  assumes "exportZip h now w destinationPath = (Inr out, w')"
  shows "\<exists>acc. exportContents h now w = Inr acc \<and>
     w' = w\<lparr>w_zipFiles := (w_zipFiles w)(out := Some (Zip (zipPut ''checksums.json''
             (stringifyChecksums h (snd acc)) (fst acc))))\<rparr>"
  using assms
  by (auto simp: exportZip_def Let_def split: if_splits sum.splits)

text \<open>
  Claim C2, as stated: the entry map of \<^verbatim>\<open>checksums.json\<close> has no entry for
  \<^verbatim>\<open>manifest.json\<close>. It fails on every export: the digest of the manifest is the first entry
  that \<^verbatim>\<open>exportZip\<close> records, and the map is what \<^verbatim>\<open>checksums.json\<close> holds.
\<close>

theorem exportZip_checksums_include_manifest:
  "isl (exportContents (exampleHost []) ''2024-05-01T10:00:00.000Z'' (exampleWorld [])) = False \<and>
   map_of (snd (projr (exportContents (exampleHost []) ''2024-05-01T10:00:00.000Z'' (exampleWorld []))))
     ''manifest.json'' = Some ''<M1>'' \<and>
   fst (exportZip (exampleHost []) ''2024-05-01T10:00:00.000Z'' (exampleWorld []) None) =
     Inr ''BookkeepingApp/exports/bookkeeping-export-2024-05-01T10-00-00-000Z.zip'' \<and>
   map_option entryData
     (zipFile (archiveOf (w_zipFiles (snd (exportZip (exampleHost []) ''2024-05-01T10:00:00.000Z''
                                            (exampleWorld []) None))
           ''BookkeepingApp/exports/bookkeeping-export-2024-05-01T10-00-00-000Z.zip''))
        ''checksums.json'') =
     Some (stringifyChecksums (exampleHost [])
             (snd (projr (exportContents (exampleHost []) ''2024-05-01T10:00:00.000Z'' (exampleWorld [])))))"
  by code_simp

text \<open>
  Claim C2, amended: for every export that \<^verbatim>\<open>exportZip\<close> completes, the written archive
  consists of files only, with \<^verbatim>\<open>checksums.json\<close> last; the entry map lists every other file
  of the archive, each with the digest of the bytes written for it: \<^verbatim>\<open>manifest.json\<close>, the
  \<^verbatim>\<open>json\<close> and \<^verbatim>\<open>csv\<close> file of every table and the media file of every image row. It has
  no entry for \<^verbatim>\<open>checksums.json\<close> itself.
\<close>

theorem exportZip_checksums_cover_files:
  assumes "exportZip h now w destinationPath = (Inr out, w')"
  shows "\<exists>files cs db.
     w_store w = Some db \<and> exportContents h now w = Inr (files, cs) \<and>
     w_zipFiles w' out =
       Some (Zip (files @ [\<lparr> entryName = ''checksums.json'', isDir = False,
                             entryData = stringifyChecksums h cs \<rparr>])) \<and>
     cs = digests h files \<and>
     list_all (\<lambda>e. \<not> isDir e) files \<and>
     set (map fst cs) =
       {''manifest.json''} \<union> (\<lambda>table. ''json/'' @ table @ ''.json'') ` set EXPORT_TABLES \<union>
       (\<lambda>table. ''csv/'' @ table @ ''.csv'') ` set CSV_TABLES \<union>
       (\<lambda>p. ''media/'' @ replaceBackslashes p) ` set (selectMediaPaths h db) \<and>
     ''manifest.json'' \<in> set (map fst cs) \<and>
     ''checksums.json'' \<notin> set (map fst cs)"
proof -
  from exportZip_InrD [OF assms] obtain acc where
    ec: "exportContents h now w = Inr acc" and
    w': "w' = w\<lparr>w_zipFiles := (w_zipFiles w)(out := Some (Zip (zipPut ''checksums.json''
             (stringifyChecksums h (snd acc)) (fst acc))))\<rparr>"
    by blast
  obtain files cs where acc: "acc = (files, cs)" by (cases acc)
  from exportContents_consistent [OF ec] acc have
    cs: "cs = digests h files" and
    all: "list_all (\<lambda>e. \<not> isDir e \<and> entryName e \<noteq> ''checksums.json'') files"
    by (simp_all add: exportConsistent_def)
  from all have files: "list_all (\<lambda>e. \<not> isDir e) files"
    and fresh: "''checksums.json'' \<notin> set (map entryName files)"
    by (auto simp: list_all_iff)
  have keys: "map fst cs = map entryName files"
    by (simp add: cs digests_def comp_def)
  from exportContents_names [OF ec] obtain db where
    db: "w_store w = Some db" and
    names0: "set (map entryName (fst acc)) =
       {''manifest.json''} \<union> (\<lambda>table. ''json/'' @ table @ ''.json'') ` set EXPORT_TABLES \<union>
       (\<lambda>table. ''csv/'' @ table @ ''.csv'') ` set CSV_TABLES \<union>
       (\<lambda>p. ''media/'' @ replaceBackslashes p) ` set (selectMediaPaths h db)"
    by (elim exE conjE)
  from names0 have names: "set (map entryName files) =
       {''manifest.json''} \<union> (\<lambda>table. ''json/'' @ table @ ''.json'') ` set EXPORT_TABLES \<union>
       (\<lambda>table. ''csv/'' @ table @ ''.csv'') ` set CSV_TABLES \<union>
       (\<lambda>p. ''media/'' @ replaceBackslashes p) ` set (selectMediaPaths h db)"
    by (simp only: acc fst_conv)
  have man: "''manifest.json'' \<in> set (map entryName files)"
    unfolding names by (intro UnI1 singletonI)
  have written: "w_zipFiles w' out =
       Some (Zip (files @ [\<lparr> entryName = ''checksums.json'', isDir = False,
                             entryData = stringifyChecksums h cs \<rparr>]))"
    by (simp add: w' acc zipPut_fresh [OF fresh])
  from ec acc have ec': "exportContents h now w = Inr (files, cs)" by (simp only:)
  note names' = names [folded keys] and man' = man [folded keys] and fresh' = fresh [folded keys]
  show ?thesis
    by (intro exI [of _ files] exI [of _ cs] exI [of _ db] conjI db ec' written cs files
        names' man' fresh')
qed

theorem exportZip_checksums_cover_files_witness:
  "fst (exportZip (exampleHost []) ''2024-05-01T10:00:00.000Z'' (exampleWorld []) None) =
     Inr ''BookkeepingApp/exports/bookkeeping-export-2024-05-01T10-00-00-000Z.zip'' \<and>
   (\<exists>files cs. exportContents (exampleHost []) ''2024-05-01T10:00:00.000Z'' (exampleWorld []) = Inr (files, cs) \<and>
      cs = digests (exampleHost []) files \<and>
      ''manifest.json'' \<in> set (map fst cs) \<and> ''checksums.json'' \<notin> set (map fst cs))"
proof -
  let ?r = "exportZip (exampleHost []) ''2024-05-01T10:00:00.000Z'' (exampleWorld []) None"
  have f: "fst ?r = Inr ''BookkeepingApp/exports/bookkeeping-export-2024-05-01T10-00-00-000Z.zip''"
    by code_simp
  then have h: "?r = (Inr ''BookkeepingApp/exports/bookkeeping-export-2024-05-01T10-00-00-000Z.zip'', snd ?r)"
    by (simp add: prod_eq_iff)
  have "\<exists>files cs. exportContents (exampleHost []) ''2024-05-01T10:00:00.000Z'' (exampleWorld []) = Inr (files, cs) \<and>
      cs = digests (exampleHost []) files \<and>
      ''manifest.json'' \<in> set (map fst cs) \<and> ''checksums.json'' \<notin> set (map fst cs)"
    using exportZip_checksums_cover_files [OF h]
  proof (elim exE conjE)
    fix files cs
    assume "exportContents (exampleHost []) ''2024-05-01T10:00:00.000Z'' (exampleWorld []) = Inr (files, cs)"
      "cs = digests (exampleHost []) files"
      "''manifest.json'' \<in> set (map fst cs)" "''checksums.json'' \<notin> set (map fst cs)"
    then show ?thesis by (intro exI [of _ files] exI [of _ cs] conjI)
  qed
  with f show ?thesis by (simp only: simp_thms)
qed

section \<open>Import: a failing media write\<close>

lemma importMedia_append:
  "importMedia h arch mroot (xs @ ys) files =
     (case importMedia h arch mroot xs files of
        (Inl e, f) \<Rightarrow> (Inl e, f)
      | (Inr u, f) \<Rightarrow> importMedia h arch mroot ys f)"
proof (induction xs arbitrary: files)
  case Nil
  then show ?case by simp
next
  case (Cons x xs)
  show ?case
    by (simp add: Cons.IH split: prod.splits sum.splits)
qed

lemma importMedia_write_fails:
  assumes "mediaDestination arch mroot name = Some destination"
    and "mkdirOk h (dirname destination)" and "\<not> writeOk h destination"
  shows "importMediaEntry h arch mroot name files = (Inl (WriteFailed destination), files)"
  using assms
  by (auto simp: mediaDestination_def importMediaEntry_def Let_def split: if_splits option.splits)

lemma importMedia_abort:
  assumes "importMedia h arch mroot names1 files = (Inr (), files1)"
    and "mediaDestination arch mroot name = Some destination"
    and "mkdirOk h (dirname destination)" and "\<not> writeOk h destination"
  shows "importMedia h arch mroot (names1 @ name # names2) files = (Inl (WriteFailed destination), files1)"
  by (simp add: importMedia_append assms(1) importMedia_write_fails [OF assms(2-4)])

lemma persistStore_active:
  "persistStore h w = (Inr u, w') \<Longrightarrow>
   w_activeDatasetId w' = w_activeDatasetId w \<and> w_store w' = w_store w \<and>
   w_dataFiles w' = w_dataFiles w \<and> w_meta w' = w_meta w"
  by (auto simp: persistStore_def Let_def split: option.splits if_splits)

lemma switchSnapshot_active:
  assumes "switchSnapshot h sid w = (Inr u, w2)"
  shows "w_activeDatasetId w2 = sid"
proof -
  from assms obtain meta where
    "persistStore h (w\<lparr>w_meta := meta, w_activeDatasetId := sid,
        w_store := Some (openStore h (w_dbImages w (getDatabasePath sid)))\<rparr>) = (Inr u, w2)"
    by (auto simp: switchSnapshot_def Let_def split: prod.splits sum.splits)
  from persistStore_active [OF this] show ?thesis by simp
qed

text \<open>
  Claim C3, as stated: a failing write of one media file does not abort the import; the
  remaining entries are processed and the failure is a warning, not an exception. It fails
  on an archive with two media files when the write of the first fails: \<^verbatim>\<open>importZip\<close>
  throws the write error, the second file is not written, and the database file still holds
  the image from before the tables were imported.
\<close>

theorem importZip_media_failure_example:
  "fst (importZip (exampleHost [''BookkeepingApp/data/imp1/media/p1/a.jpg'']) ''imp1''
          ''2024-05-01T10:00:00.000Z'' ''5/1/2024'' (exampleWorld twoMediaZip) exampleRequest) =
     Inl (WriteFailed ''BookkeepingApp/data/imp1/media/p1/a.jpg'') \<and>
   w_dataFiles (snd (importZip (exampleHost [''BookkeepingApp/data/imp1/media/p1/a.jpg'']) ''imp1''
          ''2024-05-01T10:00:00.000Z'' ''5/1/2024'' (exampleWorld twoMediaZip) exampleRequest))
     ''BookkeepingApp/data/imp1/media/p1/b.jpg'' = None \<and>
   w_store (snd (importZip (exampleHost [''BookkeepingApp/data/imp1/media/p1/a.jpg'']) ''imp1''
          ''2024-05-01T10:00:00.000Z'' ''5/1/2024'' (exampleWorld twoMediaZip) exampleRequest)) =
     Some [(''tags'', [])] \<and>
   w_dbImages (snd (importZip (exampleHost [''BookkeepingApp/data/imp1/media/p1/a.jpg'']) ''imp1''
          ''2024-05-01T10:00:00.000Z'' ''5/1/2024'' (exampleWorld twoMediaZip) exampleRequest))
     ''BookkeepingApp/data/imp1/bookkeeping.db'' = Some []"
  by code_simp

text \<open>
  Claim C3, amended: when the archive is valid, the new snapshot has been added and
  activated and the tables have been imported, and the write of a media entry fails (the
  entries before it having been processed), \<^verbatim>\<open>importZip\<close> throws that write error. The state
  is then the one after the switch of the snapshot, with the imported rows in the open
  store and the media files written before the failing one; the entries after it are not
  processed, and the final \<^verbatim>\<open>persist\<close> is not executed, so the database files and the
  snapshot metadata are as the switch left them.
\<close>

theorem importZip_media_write_failure_aborts:
  assumes v: "validateZip h (w_zipFiles w (zipPath request)) = Inr validation" "v_valid validation"
    and z: "w_zipFiles w (zipPath request) = Some (Zip arch)"
    and sw: "switchSnapshot h newId
               (w\<lparr>w_meta := snd (addSnapshot
                   \<lparr> snapId = newId,
                     label = (case requestLabel request of Some l \<Rightarrow> l | None \<Rightarrow> ''Imported '' @ localNow),
                     createdAt = now, sourceZip = Some (zipPath request), isActive = False \<rparr>
                   False (w_meta w))\<rparr>) = (Inr (), w2)"
    and st: "w_store w2 = Some db"
    and tb: "importTables h arch IMPORT_TABLES db = (Inr (), db')"
    and names: "map entryName arch = names1 @ name # names2"
    and pre: "importMedia h arch (getMediaDir newId) names1 (w_dataFiles w2) = (Inr (), files1)"
    and dest: "mediaDestination arch (getMediaDir newId) name = Some destination"
    and mk: "mkdirOk h (dirname destination)" and wr: "\<not> writeOk h destination"
  shows "importZip h newId now localNow w request =
           (Inl (WriteFailed destination), w2\<lparr>w_store := Some db', w_dataFiles := files1\<rparr>) \<and>
         w_dbImages (snd (importZip h newId now localNow w request)) = w_dbImages w2 \<and>
         w_meta (snd (importZip h newId now localNow w request)) = w_meta w2"
proof -
  have act: "w_activeDatasetId w2 = newId"
    using sw by (rule switchSnapshot_active)
  have media: "importMedia h arch (getMediaDir newId) (map entryName arch) (w_dataFiles w2) =
      (Inl (WriteFailed destination), files1)"
    unfolding names using pre dest mk wr by (rule importMedia_abort)
  have sid: "snapId (fst (addSnapshot
                   \<lparr> snapId = newId,
                     label = (case requestLabel request of Some l \<Rightarrow> l | None \<Rightarrow> ''Imported '' @ localNow),
                     createdAt = now, sourceZip = Some (zipPath request), isActive = False \<rparr>
                   False (w_meta w))) = newId"
    by (simp add: addSnapshot_def Let_def)
  have res: "importZip h newId now localNow w request =
           (Inl (WriteFailed destination), w2\<lparr>w_store := Some db', w_dataFiles := files1\<rparr>)"
    unfolding importZip_def
    by (simp add: v(1) [unfolded z] v(2) z Let_def sid sw st tb act media)
  then show ?thesis by simp
qed

theorem importZip_media_write_failure_aborts_witness:
  "validateZip (exampleHost [''BookkeepingApp/data/imp1/media/p1/a.jpg''])
     (w_zipFiles (exampleWorld twoMediaZip) (zipPath exampleRequest)) =
     Inr \<lparr> v_valid = True, v_errors = [], v_warnings = [MissingChecksums],
           v_manifest = Some exampleManifest \<rparr> \<and>
   mediaDestination twoMediaZip (getMediaDir ''imp1'') ''media/p1/a.jpg'' =
     Some ''BookkeepingApp/data/imp1/media/p1/a.jpg'' \<and>
   \<not> writeOk (exampleHost [''BookkeepingApp/data/imp1/media/p1/a.jpg''])
       ''BookkeepingApp/data/imp1/media/p1/a.jpg'' \<and>
   fst (importZip (exampleHost [''BookkeepingApp/data/imp1/media/p1/a.jpg'']) ''imp1''
          ''2024-05-01T10:00:00.000Z'' ''5/1/2024'' (exampleWorld twoMediaZip) exampleRequest) =
     Inl (WriteFailed ''BookkeepingApp/data/imp1/media/p1/a.jpg'')"
proof -
  let ?H = "exampleHost [''BookkeepingApp/data/imp1/media/p1/a.jpg'']"
  let ?W = "exampleWorld twoMediaZip"
  let ?W1 = "?W\<lparr>w_meta := snd (addSnapshot
                   \<lparr> snapId = ''imp1'',
                     label = (case requestLabel exampleRequest of Some l \<Rightarrow> l | None \<Rightarrow> ''Imported '' @ ''5/1/2024''),
                     createdAt = ''2024-05-01T10:00:00.000Z'', sourceZip = Some (zipPath exampleRequest),
                     isActive = False \<rparr>
                   False (w_meta ?W))\<rparr>"
  let ?W2 = "snd (switchSnapshot ?H ''imp1'' ?W1)"
  let ?pre = "importMedia ?H twoMediaZip (getMediaDir ''imp1'') [''manifest.json'', ''json/tags.json'']
                (w_dataFiles ?W2)"
  have hv: "validateZip ?H (w_zipFiles ?W (zipPath exampleRequest)) =
     Inr \<lparr> v_valid = True, v_errors = [], v_warnings = [MissingChecksums],
           v_manifest = Some exampleManifest \<rparr>"
    by code_simp
  have hvalid: "v_valid \<lparr> v_valid = True, v_errors = [], v_warnings = [MissingChecksums],
           v_manifest = Some exampleManifest \<rparr>"
    by simp
  have hz: "w_zipFiles ?W (zipPath exampleRequest) = Some (Zip twoMediaZip)"
    by (simp add: exampleWorld_def exampleRequest_def)
  have "fst (switchSnapshot ?H ''imp1'' ?W1) = Inr ()"
    by code_simp
  then have hs: "switchSnapshot ?H ''imp1'' ?W1 = (Inr (), ?W2)"
    by (simp add: prod_eq_iff)
  have hst: "w_store ?W2 = Some []"
    by code_simp
  have htb: "importTables ?H twoMediaZip IMPORT_TABLES [] = (Inr (), [(''tags'', [])])"
    by code_simp
  have hn: "map entryName twoMediaZip =
      [''manifest.json'', ''json/tags.json''] @ ''media/p1/a.jpg'' # [''media/p1/b.jpg'']"
    by (simp add: twoMediaZip_def fileEntry_def)
  have "fst ?pre = Inr ()"
    by code_simp
  then have hp: "?pre = (Inr (), snd ?pre)"
    by (simp add: prod_eq_iff)
  have hd: "mediaDestination twoMediaZip (getMediaDir ''imp1'') ''media/p1/a.jpg'' =
     Some ''BookkeepingApp/data/imp1/media/p1/a.jpg''"
    by code_simp
  have hm: "mkdirOk ?H (dirname ''BookkeepingApp/data/imp1/media/p1/a.jpg'')"
    by (simp add: exampleHost_def)
  have hw: "\<not> writeOk ?H ''BookkeepingApp/data/imp1/media/p1/a.jpg''"
    by (simp add: exampleHost_def)
  from importZip_media_write_failure_aborts [OF hv hvalid hz hs hst htb hn hp hd hm hw]
  have "fst (importZip ?H ''imp1'' ''2024-05-01T10:00:00.000Z'' ''5/1/2024'' ?W exampleRequest) =
     Inl (WriteFailed ''BookkeepingApp/data/imp1/media/p1/a.jpg'')"
    by (simp only: fst_conv)
  with hv hd hw show ?thesis by (simp only: simp_thms)
qed

section \<open>Snapshot metadata: one active snapshot\<close>

lemma activeCount_activate_absent:
  "\<not> list_ex (\<lambda>s. snapId s = sid) meta \<Longrightarrow>
   length (filter isActive (map (\<lambda>snapshot.
                             if snapId snapshot = sid then snapshot\<lparr>isActive := True\<rparr>
                             else snapshot\<lparr>isActive := False\<rparr>) meta)) = 0"
  by (induction meta) auto

lemma activeCount_activate_distinct:
  "distinct (map snapId meta) \<Longrightarrow> sid \<in> set (map snapId meta) \<Longrightarrow>
   length (filter isActive (map (\<lambda>snapshot.
                             if snapId snapshot = sid then snapshot\<lparr>isActive := True\<rparr>
                             else snapshot\<lparr>isActive := False\<rparr>) meta)) = 1"
proof (induction meta)
  case Nil
  then show ?case by simp
next
  case (Cons s meta)
  show ?case
  proof (cases "snapId s = sid")
    case True
    with Cons.prems have "sid \<notin> snapId ` set meta" by simp
    then have "\<not> list_ex (\<lambda>s. snapId s = sid) meta"
      unfolding list_ex_iff by blast
    from activeCount_activate_absent [OF this] True show ?thesis by simp
  next
    case False
    with Cons show ?thesis by auto
  qed
qed

lemma activate_ids:
  "map snapId (snd (activateSnapshot sid meta)) = map snapId meta"
  by (simp add: activateSnapshot_def Let_def comp_def)

lemma activate_inv:
  "distinct (map snapId meta) \<Longrightarrow> activeCount meta = 1 \<Longrightarrow>
   activeCount (snd (activateSnapshot sid meta)) = 1"
  using activeCount_activate_distinct [of meta sid]
  by (auto simp: activateSnapshot_def Let_def activeCount_def list_ex_iff)

lemma add_inv:
  "activeCount meta = 1 \<Longrightarrow> activeCount (snd (addSnapshot input setActive meta)) = 1"
  by (cases setActive) (simp_all add: addSnapshot_def Let_def activeCount_def filter_map comp_def)

lemma add_ids:
  "map snapId (snd (addSnapshot input setActive meta)) = map snapId meta @ [snapId input]"
  by (simp add: addSnapshot_def Let_def comp_def)

lemma find_isActive_Some:
  "activeCount meta = 1 \<Longrightarrow> \<exists>a. find isActive meta = Some a"
proof (cases "find isActive meta")
  case None
  then have "filter isActive meta = []"
    by (simp add: find_None_iff filter_empty_conv)
  moreover assume "activeCount meta = 1"
  ultimately show ?thesis by (simp add: activeCount_def)
next
  case (Some a)
  then show ?thesis by simp
qed

lemma ensure_inv:
  "activeCount meta = 1 \<Longrightarrow> snd (ensureActiveSnapshot newId now meta) = meta"
  using find_isActive_Some [of meta] by (auto simp: ensureActiveSnapshot_def)

lemma run_inv:
  "distinct (map snapId meta @ addedIds ops) \<Longrightarrow> activeCount meta = 1 \<Longrightarrow>
   activeCount (runSnapshotOps ops meta) = 1 \<and> distinct (map snapId (runSnapshotOps ops meta))"
proof (induction ops arbitrary: meta)
  case Nil
  then show ?case by simp
next
  case (Cons op ops)
  show ?case
  proof (cases op)
    case (EnsureActiveSnapshot newId now)
    with Cons.prems have "applySnapshotOp op meta = meta" by (simp add: ensure_inv)
    moreover from Cons.prems EnsureActiveSnapshot have "distinct (map snapId meta @ addedIds ops)" by auto
    ultimately show ?thesis using Cons.IH [of meta] Cons.prems by simp
  next
    case (ActivateSnapshot sid)
    let ?m = "applySnapshotOp op meta"
    from ActivateSnapshot have ids: "map snapId ?m = map snapId meta" by (simp add: activate_ids)
    from Cons.prems ActivateSnapshot have "activeCount ?m = 1" by (simp add: activate_inv)
    moreover from Cons.prems ActivateSnapshot ids have "distinct (map snapId ?m @ addedIds ops)" by simp
    ultimately show ?thesis using Cons.IH [of ?m] by simp
  next
    case (AddSnapshot input setActive)
    let ?m = "applySnapshotOp op meta"
    from AddSnapshot have ids: "map snapId ?m = map snapId meta @ [snapId input]" by (simp add: add_ids)
    from Cons.prems AddSnapshot have "activeCount ?m = 1" by (simp add: add_inv)
    moreover from Cons.prems AddSnapshot ids have "distinct (map snapId ?m @ addedIds ops)" by simp
    ultimately show ?thesis using Cons.IH [of ?m] by simp
  qed
qed

lemma ensure_establishes:
  "activeCount metaE = 0 \<Longrightarrow>
   snd (ensureActiveSnapshot newId now metaE) = [fst (ensureActiveSnapshot newId now metaE)] \<and>
   activeCount (snd (ensureActiveSnapshot newId now metaE)) = 1"
proof -
  assume "activeCount metaE = 0"
  then have "find isActive metaE = None"
    by (simp add: activeCount_def find_None_iff filter_empty_conv)
  then show ?thesis by (simp add: ensureActiveSnapshot_def Let_def activeCount_def)
qed

lemma activate_absent:
  "\<not> list_ex (\<lambda>s. snapId s = sidA) metaA \<Longrightarrow>
   activateSnapshot sidA metaA = (Inl (UnknownSnapshot sidA), metaA)"
  by (simp add: activateSnapshot_def Let_def)

lemma activate_present:
  assumes "list_ex (\<lambda>s. snapId s = sidP) metaP"
  shows "fst (activateSnapshot sidP metaP) = Inr ()"
    and "map (\<lambda>s. s\<lparr>isActive := False\<rparr>) (snd (activateSnapshot sidP metaP)) =
         map (\<lambda>s. s\<lparr>isActive := False\<rparr>) metaP"
    and "\<forall>s \<in> set (snd (activateSnapshot sidP metaP)). isActive s = (snapId s = sidP)"
    and "distinct (map snapId metaP) \<longrightarrow> activeCount (snd (activateSnapshot sidP metaP)) = 1"
  using assms activeCount_activate_distinct [of metaP sidP]
  by (auto simp: activateSnapshot_def Let_def activeCount_def list_ex_iff)

text \<open>
  Claim C4, as stated: from every metadata state and after every sequence of operations, a
  non-empty snapshot list has exactly one active snapshot. It fails from the empty list:
  \<^verbatim>\<open>addSnapshot\<close> with \<^verbatim>\<open>setActive = false\<close> leaves one snapshot, and it is inactive.
\<close>

theorem addSnapshot_inactive_on_empty:
  "runSnapshotOps [AddSnapshot snapImported False] [] \<noteq> [] \<and>
   activeCount (runSnapshotOps [AddSnapshot snapImported False] []) = 0"
  by (simp add: addSnapshot_def activeCount_def Let_def snapImported_def)

text \<open>
  Claim C4, amended: when the metadata has exactly one active snapshot, and its identifiers
  and the identifiers the operations add are pairwise distinct, every sequence of
  \<^verbatim>\<open>ensureActiveSnapshot\<close>, \<^verbatim>\<open>activateSnapshot\<close> and \<^verbatim>\<open>addSnapshot\<close> leaves exactly one
  active snapshot; \<^verbatim>\<open>ensureActiveSnapshot\<close> on metadata without an active snapshot leaves
  exactly the snapshot it creates, active; \<^verbatim>\<open>activateSnapshot\<close> fails with the metadata
  unchanged when the identifier is absent, and otherwise changes only the \<^verbatim>\<open>isActive\<close>
  flags, so that a snapshot is active exactly when it has that identifier (exactly one
  snapshot when identifiers are distinct).
\<close>

theorem snapshot_ops_one_active:
  "(distinct (map snapId meta @ addedIds ops) \<and> activeCount meta = 1 \<longrightarrow>
      activeCount (runSnapshotOps ops meta) = 1) \<and>
   (activeCount metaE = 0 \<longrightarrow>
      snd (ensureActiveSnapshot newId now metaE) = [fst (ensureActiveSnapshot newId now metaE)] \<and>
      activeCount (snd (ensureActiveSnapshot newId now metaE)) = 1) \<and>
   (\<not> list_ex (\<lambda>s. snapId s = sidA) metaA \<longrightarrow>
      activateSnapshot sidA metaA = (Inl (UnknownSnapshot sidA), metaA)) \<and>
   (list_ex (\<lambda>s. snapId s = sidP) metaP \<longrightarrow>
      fst (activateSnapshot sidP metaP) = Inr () \<and>
      map (\<lambda>s. s\<lparr>isActive := False\<rparr>) (snd (activateSnapshot sidP metaP)) =
        map (\<lambda>s. s\<lparr>isActive := False\<rparr>) metaP \<and>
      (\<forall>s \<in> set (snd (activateSnapshot sidP metaP)). isActive s = (snapId s = sidP)) \<and>
      (distinct (map snapId metaP) \<longrightarrow> activeCount (snd (activateSnapshot sidP metaP)) = 1))"
  using run_inv [of meta ops] ensure_establishes [of metaE newId now]
    activate_absent [of sidA metaA] activate_present [of sidP metaP]
  by blast

theorem snapshot_ops_one_active_witness:
  "distinct (map snapId [snapDefault] @
      addedIds [AddSnapshot snapImported False, ActivateSnapshot ''imp1'', ActivateSnapshot ''nope'']) \<and>
   activeCount [snapDefault] = 1 \<and>
   activeCount (runSnapshotOps
      [AddSnapshot snapImported False, ActivateSnapshot ''imp1'', ActivateSnapshot ''nope'']
      [snapDefault]) = 1 \<and>
   activeCount [] = 0 \<and>
   activeCount (snd (ensureActiveSnapshot ''d0'' ''2024-01-01T00:00:00.000Z'' [])) = 1 \<and>
   \<not> list_ex (\<lambda>s. snapId s = ''nope'') [snapDefault] \<and>
   activateSnapshot ''nope'' [snapDefault] = (Inl (UnknownSnapshot ''nope''), [snapDefault]) \<and>
   list_ex (\<lambda>s. snapId s = ''imp1'') [snapDefault, snapImported] \<and>
   distinct (map snapId [snapDefault, snapImported]) \<and>
   fst (activateSnapshot ''imp1'' [snapDefault, snapImported]) = Inr () \<and>
   activeCount (snd (activateSnapshot ''imp1'' [snapDefault, snapImported])) = 1"
proof -
  have h1: "distinct (map snapId [snapDefault] @
      addedIds [AddSnapshot snapImported False, ActivateSnapshot ''imp1'', ActivateSnapshot ''nope''])"
    by (simp add: snapDefault_def snapImported_def)
  have h2: "activeCount [snapDefault] = 1" by (simp add: activeCount_def snapDefault_def)
  have h3: "activeCount [] = 0" by (simp add: activeCount_def)
  have h4: "\<not> list_ex (\<lambda>s. snapId s = ''nope'') [snapDefault]" by (simp add: snapDefault_def)
  have h5: "list_ex (\<lambda>s. snapId s = ''imp1'') [snapDefault, snapImported]"
    by (simp add: snapImported_def)
  have h6: "distinct (map snapId [snapDefault, snapImported])"
    by (simp add: snapDefault_def snapImported_def)
  from snapshot_ops_one_active [of "[snapDefault]"
      "[AddSnapshot snapImported False, ActivateSnapshot ''imp1'', ActivateSnapshot ''nope'']"
      "[]" "''d0''" "''2024-01-01T00:00:00.000Z''" "''nope''" "[snapDefault]"
      "''imp1''" "[snapDefault, snapImported]"]
    h1 h2 h3 h4 h5 h6
  show ?thesis by blast
qed

section \<open>Filter compilation and purchase listing\<close>


















lemma build_tagFilter:
  "ids \<noteq> [] \<Longrightarrow>
   buildPurchaseFilterSql (tagFilter ids) =
     \<lparr> whereSql = [TagsAll (length ids) (length ids)], bindValues = map SqlText ids \<rparr>"
  by (simp add: buildPurchaseFilterSql_def tagFilter_def pushFromDate_def pushToDate_def
      pushCategoryIds_def pushVendor_def pushMinAmount_def pushMaxAmount_def pushTagIds_def
      pushQuery_def truthy_def)

lemma tagGroup_tag_ids:
  "set (map pt_tag_id (tagGroup db (map SqlText ids) pid)) = purchaseTagIds db pid \<inter> set ids"
  by (auto simp: tagGroup_def purchaseTagIds_def)

lemma tag_filter_distinct_ids:
  assumes "ids \<noteq> []" and "distinct ids"
  shows "matchesFilter db (tagFilter ids) p \<longleftrightarrow> set ids \<subseteq> purchaseTagIds db (p_id p)"
proof -
  let ?G = "tagGroup db (map SqlText ids) (p_id p)"
  let ?T = "purchaseTagIds db (p_id p)"
  have cnt: "countDistinctTags ?G = card (?T \<inter> set ids)"
    unfolding countDistinctTags_def length_remdups_card_conv tagGroup_tag_ids ..
  have len: "length ids = card (set ids)"
    using assms(2) by (simp add: distinct_card)
  have m: "matchesFilter db (tagFilter ids) p \<longleftrightarrow> ?G \<noteq> [] \<and> countDistinctTags ?G = length ids"
    using assms(1) by (simp add: matchesFilter_def build_tagFilter)
  show ?thesis
  proof
    assume "matchesFilter db (tagFilter ids) p"
    with m cnt len have "card (?T \<inter> set ids) = card (set ids)" by simp
    then have "?T \<inter> set ids = set ids"
      by (intro card_subset_eq) auto
    then show "set ids \<subseteq> ?T" by blast
  next
    assume sub: "set ids \<subseteq> ?T"
    then have eq: "?T \<inter> set ids = set ids" by blast
    from assms(1) have "set ids \<noteq> {}" by simp
    with eq have "set (map pt_tag_id ?G) \<noteq> {}" unfolding tagGroup_tag_ids by simp
    then have "?G \<noteq> []" by auto
    with m cnt len eq show "matchesFilter db (tagFilter ids) p" by simp
  qed
qed

lemma tag_filter_spec_examples:
  "map p_id (filter (matchesFilter exampleDb (tagFilter [''A'', ''B''])) (purchases exampleDb)) = [''p3''] \<and>
   map p_id (filter (matchesFilter exampleDb (tagFilter [''A''])) (purchases exampleDb)) = [''p1'', ''p3'']"
  by code_simp

text \<open>
  Claim C5. The compiled tag predicate is to match a purchase exactly when it carries every
  tag id of the filter. The code compares \<^verbatim>\<open>count(DISTINCT tag_id)\<close> with the length of the
  \<^verbatim>\<open>tagIds\<close> array, so an array that repeats an id matches nothing: with \<^verbatim>\<open>tagIds = [A, A]\<close>
  the purchase tagged {A} carries every requested tag and is not matched. For arrays without
  repetition the predicate is the one claimed (\<open>tag_filter_distinct_ids\<close>), and the examples
  of the specification hold (\<open>tag_filter_spec_examples\<close>).
\<close>

theorem tag_filter_duplicate_ids_match_nothing:
  "set [''A'', ''A''] \<subseteq> purchaseTagIds exampleDb ''p1'' \<and>
   \<not> matchesFilter exampleDb (tagFilter [''A'', ''A'']) (examplePurchase ''p1'' ''2024-03-01'') \<and>
   filter (matchesFilter exampleDb (tagFilter [''A'', ''A''])) (purchases exampleDb) = []"
  by code_simp






section \<open>Settings: partial updates and the theme\<close>

lemma parse_SomeD:
  assumes "appSettingsSchema_parse valid raw = Some s"
  shows "settingsToRaw s = raw" and "valid s"
proof -
  from assms obtain t c b m p lf l off where
    raw: "rawTheme raw = Some t" "rawBaseCurrency raw = Some c"
      "rawOverallMonthlyBudgetCents raw = Some b" "rawPerformanceMode raw = Some m"
      "rawPreviewImages raw = Some p" "rawLastFilters raw = Some lf"
      "rawLimit lf = Some l" "rawOffset lf = Some off"
    by (auto simp: appSettingsSchema_parse_def split: option.splits)
  with assms have s: "valid s" and
    "s = \<lparr> theme = t, baseCurrency = c, overallMonthlyBudgetCents = b,
            performanceMode = m, previewImages = p,
            lastFilters =
              \<lparr> fromDate = rawFromDate lf, toDate = rawToDate lf,
                categoryIds = rawCategoryIds lf, vendor = rawVendor lf,
                minAmountCents = rawMinAmountCents lf,
                maxAmountCents = rawMaxAmountCents lf, tagIds = rawTagIds lf,
                query = rawQuery lf, limit = l, offset = off \<rparr> \<rparr>"
    by (simp_all add: appSettingsSchema_parse_def Let_def split: if_splits)
  with raw show "settingsToRaw s = raw"
    by (simp add: settingsToRaw_def filterToRaw_def)
  from s show "valid s" .
qed

lemma parse_settingsToRaw:
  "valid s \<Longrightarrow> appSettingsSchema_parse valid (settingsToRaw s) = Some s"
proof -
  assume v: "valid s"
  obtain t c b m p lf where s: "s = \<lparr> theme = t, baseCurrency = c, overallMonthlyBudgetCents = b,
          performanceMode = m, previewImages = p, lastFilters = lf \<rparr>"
    by (cases s)
  obtain fd td ci ve mi ma ti q l off where lf: "lf = \<lparr> fromDate = fd, toDate = td, categoryIds = ci,
          vendor = ve, minAmountCents = mi, maxAmountCents = ma, tagIds = ti, query = q,
          limit = l, offset = off \<rparr>"
    by (cases lf)
  show ?thesis using v unfolding s lf
    by (simp add: appSettingsSchema_parse_def settingsToRaw_def filterToRaw_def)
qed

lemma getSettings_dark:
  "store svc \<noteq> None \<Longrightarrow> \<exists>s. getSettings valid svc = Inr s \<and> theme s = ''dark''"
  by (auto simp: getSettings_def defaultSettings_def split: option.splits)

lemma updateSettings_InrD:
  assumes "updateSettings valid svc input = Inr (next, svc')"
  shows "\<exists>current db. getSettings valid svc = Inr current \<and> store svc = Some db \<and>
           settingsToRaw next = mergeSettings current input \<and> valid next \<and>
           svc' = \<lparr> store = Some (db\<lparr>app_settings_row := Some (JsonObject (settingsToRaw next))\<rparr>),
                    persisted = Some (db\<lparr>app_settings_row := Some (JsonObject (settingsToRaw next))\<rparr>) \<rparr>"
proof -
  from assms obtain current where cur: "getSettings valid svc = Inr current"
    by (auto simp: updateSettings_def split: sum.splits)
  with assms obtain nxt where p: "appSettingsSchema_parse valid (mergeSettings current input) = Some nxt"
    by (auto simp: updateSettings_def split: option.splits)
  from cur obtain db where db: "store svc = Some db"
    by (auto simp: getSettings_def split: option.splits)
  from parse_SomeD [OF p] have raw: "settingsToRaw nxt = mergeSettings current input" and v: "valid nxt"
    by simp_all
  from v have ser: "serializeSettings valid nxt = Some (JsonObject (settingsToRaw nxt))"
    by (simp add: serializeSettings_def parse_settingsToRaw)
  from assms cur p db ser have "next = nxt" and
    "svc' = \<lparr> store = Some (db\<lparr>app_settings_row := Some (JsonObject (settingsToRaw nxt))\<rparr>),
              persisted = Some (db\<lparr>app_settings_row := Some (JsonObject (settingsToRaw nxt))\<rparr>) \<rparr>"
    by (auto simp: updateSettings_def Let_def)
  with cur db raw v show ?thesis by blast
qed

lemma merged_theme:
  "settingsToRaw next = mergeSettings current input \<Longrightarrow> theme next = ''dark''"
proof -
  assume "settingsToRaw next = mergeSettings current input"
  then have "rawTheme (settingsToRaw next) = rawTheme (mergeSettings current input)" by simp
  then show ?thesis by (simp add: settingsToRaw_def mergeSettings_def)
qed


lemma spread_Absent: "p = Absent \<Longrightarrow> Some v = spread c p \<Longrightarrow> c = Some v"
  by (simp add: spread_def)



lemma getSettings_after_update:
  assumes "valid next" and "theme next = ''dark''"
  shows "getSettings valid \<lparr> store = Some (db\<lparr>app_settings_row := Some (JsonObject (settingsToRaw next))\<rparr>),
                             persisted = q \<rparr> = Inr next"
  using assms by (simp add: getSettings_def deserializeSettings_def parse_settingsToRaw)




text \<open>
  Claim C10. Whatever the settings row holds, \<^verbatim>\<open>getSettings\<close> on an open store returns an
  object with the theme \<^verbatim>\<open>dark\<close>; whatever the input asks for, the object that
  \<^verbatim>\<open>updateSettings\<close> returns has the theme \<^verbatim>\<open>dark\<close>, and so have the object it stores and
  the result of a following \<^verbatim>\<open>getSettings\<close>.
\<close>

theorem settings_theme_is_dark:
  "(store svc \<noteq> None \<longrightarrow> (\<exists>s. getSettings valid svc = Inr s \<and> theme s = ''dark'')) \<and>
   (updateSettings valid svc input = Inr (next, svc') \<longrightarrow>
      theme next = ''dark'' \<and>
      (\<exists>db. store svc' = Some db \<and> app_settings_row db = Some (JsonObject (settingsToRaw next)) \<and>
            rawTheme (settingsToRaw next) = Some ''dark'') \<and>
      getSettings valid svc' = Inr next)"
proof (intro conjI impI)
  assume "store svc \<noteq> None"
  then show "\<exists>s. getSettings valid svc = Inr s \<and> theme s = ''dark''" by (rule getSettings_dark)
next
  assume u: "updateSettings valid svc input = Inr (next, svc')"
  from updateSettings_InrD [OF u] obtain current db where
    raw: "settingsToRaw next = mergeSettings current input" and v: "valid next" and
    svc': "svc' = \<lparr> store = Some (db\<lparr>app_settings_row := Some (JsonObject (settingsToRaw next))\<rparr>),
                    persisted = Some (db\<lparr>app_settings_row := Some (JsonObject (settingsToRaw next))\<rparr>) \<rparr>"
    by blast
  from raw show dark: "theme next = ''dark''" by (rule merged_theme)
  then show "\<exists>db. store svc' = Some db \<and> app_settings_row db = Some (JsonObject (settingsToRaw next)) \<and>
            rawTheme (settingsToRaw next) = Some ''dark''"
    by (simp add: svc' settingsToRaw_def)
  show "getSettings valid svc' = Inr next"
    unfolding svc' using v dark by (rule getSettings_after_update)
qed


theorem settings_theme_is_dark_witness:
  "store lightService \<noteq> None \<and>
   (\<exists>s. getSettings acceptAll lightService = Inr s \<and> theme s = ''dark'') \<and>
   updateSettings acceptAll lightService budgetAndQuery = Inr (budgetAndQueryNext, budgetAndQueryService) \<and>
   inTheme budgetAndQuery = Present ''light'' \<and>
   theme budgetAndQueryNext = ''dark'' \<and>
   getSettings acceptAll budgetAndQueryService = Inr budgetAndQueryNext"
proof -
  have h1: "store lightService \<noteq> None" by (simp add: lightService_def)
  have h2: "updateSettings acceptAll lightService budgetAndQuery = Inr (budgetAndQueryNext, budgetAndQueryService)"
    by code_simp
  have i: "inTheme budgetAndQuery = Present ''light''" by (simp add: budgetAndQuery_def)
  from settings_theme_is_dark [of lightService acceptAll budgetAndQuery budgetAndQueryNext budgetAndQueryService]
    h1 h2 i
  show ?thesis by (simp only: simp_thms)
qed

section \<open>Dashboard: month-over-month delta\<close>







section \<open>Budget variance\<close>




end
